theory Spec2Isabelle
  imports Main "HOL-Library.Sublist"
begin

section \<open>Exceptions and results\<close>

text \<open>
  The Python exceptions that the modelled code of \<^verbatim>\<open>autologin/spiders.py\<close> can
  raise or let through. \<open>CloseSpider\<close> is the exception the form spider raises on
  purpose; the others come from subscripting \<open>None\<close> or writing a byte string to a text
  file (\<open>TypeError\<close>), from a missing dictionary key or form field (\<open>KeyError\<close>) and
  from a form control that refuses a value or a string that is not base64
  (\<open>ValueError\<close>).
\<close>

datatype exn = ValueError | KeyError | TypeError | CloseSpider

section \<open>Cookies\<close>

text \<open>
  A cookie as \<^verbatim>\<open>c.__dict__\<close> of a cookie of the jar shows it: the five entries
  \<^verbatim>\<open>_cookie_tuples\<close> reads, and some of the further attributes that every cookie carries
  (\<^verbatim>\<open>version\<close>, \<^verbatim>\<open>secure\<close>, \<^verbatim>\<open>expires\<close>, \<^verbatim>\<open>discard\<close>).
  The port of a cookie is a string or \<^verbatim>\<open>None\<close>.
\<close>

record cookie =
  cookie_name :: string
  cookie_value :: string
  cookie_domain :: string
  cookie_path :: string
  cookie_port :: "string option"
  cookie_version :: "nat option"
  cookie_secure :: bool
  cookie_expires :: "int option"
  cookie_discard :: bool

type_synonym cookie_tuple = "string \<times> string \<times> string \<times> string \<times> string option"

text \<open>
  \<^verbatim>\<open>cookie_dicts(cookiejar)\<close>: \<^verbatim>\<open>None\<close> for a missing jar, otherwise the list of
  the cookies' dictionaries, in the order of the jar.
\<close>

definition cookie_dicts :: "cookie list option \<Rightarrow> cookie list option" where
  "cookie_dicts cookiejar =
     (case cookiejar of None \<Rightarrow> None | Some cs \<Rightarrow> Some (map (\<lambda>c. c) cs))"

text \<open>\<^verbatim>\<open>_cookie_tuples(cookie_dicts)\<close>: one 5-tuple per dictionary.\<close>

definition cookie_tuple :: "cookie \<Rightarrow> cookie_tuple" where
  "cookie_tuple c =
     (cookie_name c, cookie_value c, cookie_domain c, cookie_path c, cookie_port c)"

definition cookie_tuples :: "cookie list \<Rightarrow> cookie_tuple list" where
  "cookie_tuples ds = map cookie_tuple ds"

text \<open>
  \<^verbatim>\<open>x or []\<close> for \<open>x\<close> a jar, a list or \<^verbatim>\<open>None\<close>: \<^verbatim>\<open>None\<close> and the empty
  container are both false, so both give the empty list.
\<close>

definition or_empty :: "'a list option \<Rightarrow> 'a list" where
  "or_empty x = (case x of None \<Rightarrow> [] | Some xs \<Rightarrow> if xs = [] then [] else xs)"

section \<open>Responses and the login spider\<close>

text \<open>
  What the spiders read of a response. \<open>cookiejar\<close> is the attribute
  \<^verbatim>\<open>response.cookiejar\<close>: \<open>None\<close> when the response has no such attribute (the test of
  \<^verbatim>\<open>hasattr\<close>), \<open>Some j\<close> when it has, where \<open>j\<close> is again \<open>None\<close> or a jar.
  \<open>exposed_cookiejar\<close> is what the middleware's \<^verbatim>\<open>get_cookiejar(response)\<close> yields for
  this response. \<open>meta_initial_cookies\<close> is the entry \<^verbatim>\<open>response.meta['initial_cookies']\<close>,
  absent on a response whose request did not set it. \<open>data_page\<close> is the entry
  \<^verbatim>\<open>response.data['page']\<close>, the page image in base64 that the rendering service
  attaches, absent on a response that has none.
\<close>

record response =
  response_url :: string
  response_text :: string
  cookiejar :: "cookie list option option"
  exposed_cookiejar :: "cookie list option"
  meta_initial_cookies :: "cookie list option"
  data_page :: "string option"

definition response_cookies :: "response \<Rightarrow> cookie list option" where
  "response_cookies r =
     (case cookiejar r of Some j \<Rightarrow> j | None \<Rightarrow> exposed_cookiejar r)"

record login_spider =
  spider_username :: string
  spider_password :: string
  using_splash :: bool
  debug_enabled :: bool

text \<open>
  The item a login attempt ends with: \<^verbatim>\<open>{'ok': False, 'error': e}\<close> is \<open>Failure e\<close>,
  \<^verbatim>\<open>{'ok': True, 'cookies': cs, 'start_url': u}\<close> is \<open>Success cs u\<close>.
\<close>

datatype item = Failure string | Success "cookie list" string

fun ok :: "item \<Rightarrow> bool" where
  "ok (Failure e) = False"
| "ok (Success cs u) = True"

section \<open>Classified forms and the external collaborators\<close>

text \<open>
  The classification of one form, \<^verbatim>\<open>meta\<close>: its type \<^verbatim>\<open>meta['form']\<close> and
  \<^verbatim>\<open>list(meta['fields'].items())\<close>, the pairs of field name and field type in the
  order of the dictionary.
\<close>

record meta =
  meta_form :: string
  meta_fields :: "(string \<times> string) list"

text \<open>
  A link of the link extractor. \<open>link_parts\<close> holds what \<^verbatim>\<open>urlsplit(link.url)\<close>
  gives: scheme, network location, path, query and fragment.
\<close>

record split_result =
  scheme :: string
  netloc :: string
  path :: string
  query :: string
  fragment :: string

record link =
  link_url :: string
  link_parts :: split_result
  link_text :: string

text \<open>
  The spiders call into libraries that are not part of the repository: the form
  classifier, the HTML form objects, the URL functions and the link extractor. They are
  parameters of the model. \<open>'f\<close> is the type of form objects, \<open>'v\<close> the type of the
  values a form field can hold.
  \<^item> \<open>extract_forms\<close>: \<^verbatim>\<open>formasaurus.extract_forms(html)\<close>, the forms of a page with
    their classification, in page order;
  \<^item> \<open>get_base_url\<close>: the base URL of a response;
  \<^item> \<open>fields_setitem\<close>: the assignment \<^verbatim>\<open>form.fields[name] = value\<close>; it gives the
    form after the assignment and the exception raised, if any;
  \<^item> \<open>fields_getitem\<close>: the read \<^verbatim>\<open>form.fields[name]\<close>;
  \<^item> \<open>form_values\<close>, \<open>form_action\<close>, \<open>form_method\<close>: \<^verbatim>\<open>form.form_values()\<close>,
    \<^verbatim>\<open>form.action\<close> (which may be \<^verbatim>\<open>None\<close>) and \<^verbatim>\<open>form.method\<close>;
  \<^item> \<open>urljoin\<close>, \<open>urlencode\<close>: the functions of \<^verbatim>\<open>urllib.parse\<close>;
  \<^item> \<open>b64decode\<close>: the function of \<^verbatim>\<open>base64\<close>, which gives the decoded byte string
    or raises;
  \<^item> \<open>extract_links\<close>: \<^verbatim>\<open>self.link_extractor.extract_links(response)\<close>.
\<close>

record ('f, 'v) externals =
  extract_forms :: "string \<Rightarrow> ('f \<times> meta) list"
  get_base_url :: "response \<Rightarrow> string"
  fields_setitem :: "'f \<Rightarrow> string \<Rightarrow> string \<Rightarrow> 'f \<times> exn option"
  fields_getitem :: "'f \<Rightarrow> string \<Rightarrow> exn + 'v"
  form_values :: "'f \<Rightarrow> (string \<times> 'v) list"
  form_action :: "'f \<Rightarrow> string option"
  form_method :: "'f \<Rightarrow> string"
  urljoin :: "string \<Rightarrow> string option \<Rightarrow> string"
  urlencode :: "(string \<times> 'v) list \<Rightarrow> string"
  b64decode :: "string \<Rightarrow> exn + string"
  extract_links :: "response \<Rightarrow> link list"

section \<open>Building the login submission\<close>

definition USERNAME_FIELD_TYPES :: "string set" where
  "USERNAME_FIELD_TYPES = {''username'', ''email'', ''username or email''}"

definition CHECK_CHECKBOXES :: "string set" where
  "CHECK_CHECKBOXES = {''remember me checkbox''}"

definition PASSWORD_FIELD_TYPES :: "string set" where
  "PASSWORD_FIELD_TYPES = {''password''}"

definition SUBMIT_TYPES :: "string set" where
  "SUBMIT_TYPES = {''submit button''}"

definition DEFAULT_POST_HEADERS :: "(string \<times> string) list" where
  "DEFAULT_POST_HEADERS = [(''Content-Type'', ''application/x-www-form-urlencoded'')]"

text \<open>
  The first loop of \<^verbatim>\<open>login_params\<close>, over the fields, with the two variables
  \<^verbatim>\<open>username_field\<close> and \<^verbatim>\<open>password_field\<close> it assigns.
\<close>

fun find_fields ::
  "(string \<times> string) list \<Rightarrow> string option \<Rightarrow> string option \<Rightarrow> string option \<times> string option"
where
  "find_fields [] username_field password_field = (username_field, password_field)"
| "find_fields ((field_name, field_type) # flds) username_field password_field =
     (if field_type \<in> USERNAME_FIELD_TYPES
      then find_fields flds (Some field_name) password_field
      else if field_type \<in> PASSWORD_FIELD_TYPES
      then find_fields flds username_field (Some field_name)
      else find_fields flds username_field password_field)"

text \<open>
  The second loop: every field typed as a checkbox to check is assigned \<^verbatim>\<open>'on'\<close>;
  a \<open>ValueError\<close> of that assignment is passed over, any other exception leaves the
  loop and the function.
\<close>

fun check_checkboxes ::
  "('f, 'v) externals \<Rightarrow> (string \<times> string) list \<Rightarrow> 'f \<Rightarrow> 'f \<times> exn option"
where
  "check_checkboxes ext [] form = (form, None)"
| "check_checkboxes ext ((field_name, field_type) # flds) form =
     (if field_type \<in> CHECK_CHECKBOXES
      then (case fields_setitem ext form field_name ''on'' of
              (form', raised) \<Rightarrow>
                if raised = None \<or> raised = Some ValueError
                then check_checkboxes ext flds form'
                else (form', raised))
      else check_checkboxes ext flds form)"

text \<open>
  The third loop: the value of every field typed as a submit button is read from the
  form and appended to \<^verbatim>\<open>submit_values\<close>.
\<close>

fun append_submit_values ::
  "('f, 'v) externals \<Rightarrow> 'f \<Rightarrow> (string \<times> string) list \<Rightarrow> (string \<times> 'v) list
     \<Rightarrow> exn + (string \<times> 'v) list"
where
  "append_submit_values ext form [] submit_values = Inr submit_values"
| "append_submit_values ext form ((field_name, field_type) # flds) submit_values =
     (if field_type \<in> SUBMIT_TYPES
      then (case fields_getitem ext form field_name of
              Inl e \<Rightarrow> Inl e
            | Inr v \<Rightarrow> append_submit_values ext form flds (submit_values @ [(field_name, v)]))
      else append_submit_values ext form flds submit_values)"

text \<open>The dictionary that \<^verbatim>\<open>login_params\<close> returns.\<close>

record params =
  params_url :: "string option"
  params_method :: string
  params_headers :: "(string \<times> string) list"
  params_body :: string

text \<open>
  \<^verbatim>\<open>login_params(url, username, password, form, meta)\<close>. The form object is changed
  in place by the assignments, so the model returns the form as the call leaves it,
  together with the outcome: an exception, \<^verbatim>\<open>None\<close> (the bare \<^verbatim>\<open>return\<close>) or
  the dictionary.
\<close>

definition login_params ::
  "('f, 'v) externals \<Rightarrow> string option \<Rightarrow> string \<Rightarrow> string \<Rightarrow> 'f \<Rightarrow> meta
     \<Rightarrow> 'f \<times> (exn + params option)"
where
  "login_params ext url username password form meta =
     (let flds = meta_fields meta in
      case find_fields flds None None of
        (Some username_field, Some password_field) \<Rightarrow>
          (case check_checkboxes ext flds form of
             (form1, Some e) \<Rightarrow> (form1, Inl e)
           | (form1, None) \<Rightarrow>
               (case fields_setitem ext form1 username_field username of
                  (form2, Some e) \<Rightarrow> (form2, Inl e)
                | (form2, None) \<Rightarrow>
                    (case fields_setitem ext form2 password_field password of
                       (form3, Some e) \<Rightarrow> (form3, Inl e)
                     | (form3, None) \<Rightarrow>
                         (case append_submit_values ext form3 flds (form_values ext form3) of
                            Inl e \<Rightarrow> (form3, Inl e)
                          | Inr submit_values \<Rightarrow>
                              (form3, Inr (Some
                                \<lparr>params_url =
                                   (case url of None \<Rightarrow> form_action ext form3
                                    | Some u \<Rightarrow> Some (urljoin ext u (form_action ext form3))),
                                 params_method = form_method ext form3,
                                 params_headers =
                                   (if form_method ext form3 = ''POST''
                                    then DEFAULT_POST_HEADERS else []),
                                 params_body = urlencode ext submit_values\<rparr>))))))
      | _ \<Rightarrow> (form, Inr None))"

section \<open>The login spider's first callback\<close>

text \<open>\<^verbatim>\<open>get_login_form\<close>: the first form classified as a login form, if any.\<close>

fun first_login_form :: "('f \<times> meta) list \<Rightarrow> ('f \<times> meta) option" where
  "first_login_form [] = None"
| "first_login_form ((form, meta) # rest) =
     (if meta_form meta = ''login'' then Some (form, meta) else first_login_form rest)"

definition get_login_form :: "('f, 'v) externals \<Rightarrow> string \<Rightarrow> ('f \<times> meta) option" where
  "get_login_form ext html_source = first_login_form (extract_forms ext html_source)"

text \<open>
  A request as a spider builds it with \<^verbatim>\<open>self.request\<close>: the URL, the callback, and
  the keyword arguments the two spiders use.
\<close>

datatype callback = Parse | ParseLogin

record request =
  request_url :: "string option"
  request_callback :: callback
  request_method :: string
  request_headers :: "(string \<times> string) list"
  request_body :: string
  request_meta_initial_cookies :: "cookie list option"
  request_dont_filter :: bool
  request_priority :: int

datatype parse_result = Item item | Request request

text \<open>
  \<^verbatim>\<open>LoginSpider.parse\<close>. Where \<^verbatim>\<open>login_params\<close> has returned \<^verbatim>\<open>None\<close>, the
  subscription \<^verbatim>\<open>params['url']\<close> raises \<open>TypeError\<close>.
\<close>

definition parse ::
  "('f, 'v) externals \<Rightarrow> login_spider \<Rightarrow> response \<Rightarrow> exn + parse_result"
where
  "parse ext self r =
     (case get_login_form ext (response_text r) of
        None \<Rightarrow> Inr (Item (Failure ''nologinform''))
      | Some (form, meta) \<Rightarrow>
          (case login_params ext (Some (get_base_url ext r))
                  (spider_username self) (spider_password self) form meta of
             (form', Inl e) \<Rightarrow> Inl e
           | (form', Inr params) \<Rightarrow>
               (let initial_cookies = or_empty (cookie_dicts (response_cookies r)) in
                case params of
                  None \<Rightarrow> Inl TypeError
                | Some p \<Rightarrow>
                    Inr (Request
                      \<lparr>request_url = params_url p,
                       request_callback = ParseLogin,
                       request_method = params_method p,
                       request_headers = params_headers p,
                       request_body = params_body p,
                       request_meta_initial_cookies = Some initial_cookies,
                       request_dont_filter = True,
                       request_priority = 0\<rparr>))))"

text \<open>
  The response of a request carries the request's meta: the response that
  \<^verbatim>\<open>parse_login\<close> receives for the request \<open>rq\<close>.
\<close>

definition response_of :: "request \<Rightarrow> response \<Rightarrow> response" where
  "response_of rq r = r\<lparr>meta_initial_cookies := request_meta_initial_cookies rq\<rparr>"

section \<open>The login spider's second callback\<close>

text \<open>
  \<^verbatim>\<open>debug_screenshot(name, screenshot)\<close> returns at once unless the logger is enabled
  for debugging. Otherwise it opens a new file in the server's directory with mode
  \<^verbatim>\<open>'w'\<close>, which creates the file, and writes the screenshot to it. The screenshot is
  the byte string that \<^verbatim>\<open>b64decode\<close> has returned, and a file opened for text does
  not take a byte string: the write raises \<open>TypeError\<close>, the file stays empty and the
  message that follows the write is not logged. The result is the exception raised, if
  any, and the files created.
\<close>

datatype event = EmptyFileCreated

definition debug_screenshot ::
  "login_spider \<Rightarrow> string \<Rightarrow> string \<Rightarrow> exn option \<times> event list"
where
  "debug_screenshot self nm screenshot =
     (if \<not> debug_enabled self then (None, [])
      else (Some TypeError, [EmptyFileCreated]))"

text \<open>
  \<^verbatim>\<open>LoginSpider.parse_login\<close>. The result is the item returned or the exception
  raised, together with the files created on the way. Where no cookie is new, a spider
  that uses the rendering service first reads \<^verbatim>\<open>response.data['page']\<close>, decodes it
  and calls \<^verbatim>\<open>debug_screenshot\<close>; each of the three can raise, and then no item is
  returned.
\<close>

definition parse_login ::
  "('f, 'v) externals \<Rightarrow> login_spider \<Rightarrow> response \<Rightarrow> (exn + item) \<times> event list"
where
  "parse_login ext self r =
     (let cookies = or_empty (response_cookies r) in
      case meta_initial_cookies r of
        None \<Rightarrow> (Inl KeyError, [])
      | Some initial \<Rightarrow>
          (let old_cookies = set (cookie_tuples initial) in
           case cookie_dicts (Some cookies) of
             None \<Rightarrow> (Inl TypeError, [])
           | Some ds \<Rightarrow>
               (let new_cookies = set (cookie_tuples ds) in
                if new_cookies \<subseteq> old_cookies
                then (if using_splash self
                      then (case data_page r of
                              None \<Rightarrow> (Inl KeyError, [])
                            | Some page \<Rightarrow>
                                (case b64decode ext page of
                                   Inl e \<Rightarrow> (Inl e, [])
                                 | Inr screenshot \<Rightarrow>
                                     (case debug_screenshot self ''page'' screenshot of
                                        (Some e, events) \<Rightarrow> (Inl e, events)
                                      | (None, events) \<Rightarrow>
                                          (Inr (Failure ''badauth''), events))))
                      else (Inr (Failure ''badauth''), []))
                else (Inr (Success cookies (response_url r)), []))))"

section \<open>The form spider\<close>

definition priority_patterns :: "string list" where
  "priority_patterns =
     [''login'', ''log in'', ''logon'', ''signin'', ''sign in'', ''sign-in'',
      ''signup'', ''sign up'', ''sign-up'', ''register'', ''registration'',
      ''account'', ''join'']"

text \<open>
  \<^verbatim>\<open>relative_url(url)\<close> puts the parts of the URL together again with the scheme and
  the network location empty: the path, then \<^verbatim>\<open>?\<close> and the query if there is one,
  then \<^verbatim>\<open>#\<close> and the fragment if there is one.
\<close>

definition relative_url :: "split_result \<Rightarrow> string" where
  "relative_url parts =
     path parts
     @ (if query parts \<noteq> [] then ''?'' @ query parts else [])
     @ (if fragment parts \<noteq> [] then ''#'' @ fragment parts else [])"

text \<open>
  \<^verbatim>\<open>str.lower\<close> on characters up to code point 255: the capital letters of ASCII
  and of Latin-1 get bit 5 set, every other character stays.
\<close>

definition lower_char :: "char \<Rightarrow> char" where
  "lower_char c =
     (let n = (of_char c :: nat) in
      if (65 \<le> n \<and> n \<le> 90) \<or> (192 \<le> n \<and> n \<le> 222 \<and> n \<noteq> 215)
      then (case c of Char b0 b1 b2 b3 b4 b5 b6 b7 \<Rightarrow> Char b0 b1 b2 b3 b4 True b6 b7)
      else c)"

definition lower :: "string \<Rightarrow> string" where
  "lower s = map lower_char s"

text \<open>\<^verbatim>\<open>pattern in text\<close>: the pattern occurs in the text as a contiguous piece.\<close>

fun contains :: "string \<Rightarrow> string \<Rightarrow> bool" where
  "contains pattern [] = (pattern = [])"
| "contains pattern (c # cs) = (prefix pattern (c # cs) \<or> contains pattern cs)"

text \<open>The priority that \<^verbatim>\<open>FormSpider.parse\<close> computes for a link.\<close>

definition link_priority :: "link \<Rightarrow> int" where
  "link_priority l =
     (let text = lower (relative_url (link_parts l) @ '' '' @ link_text l) in
      if list_ex (\<lambda>pattern. contains pattern text) priority_patterns then 100 else 0)"

text \<open>
  The state of a form spider: the two flags, and the credentials object with the two
  URLs the handlers write. \<open>handled\<close> lists the calls of the two handlers (each of
  which commits the credentials to the database), latest first.
\<close>

datatype handler_call = HandleLoginForm string | HandleRegistrationForm string

record form_spider =
  found_login :: bool
  found_registration :: bool
  credentials_login_url :: "string option"
  credentials_registration_url :: "string option"
  handled :: "handler_call list"

text \<open>The state that \<^verbatim>\<open>FormSpider.__init__\<close> sets up, for fresh credentials.\<close>

definition form_spider_init :: form_spider where
  "form_spider_init =
     \<lparr>found_login = False, found_registration = False,
      credentials_login_url = None, credentials_registration_url = None,
      handled = []\<rparr>"

definition handle_login_form :: "form_spider \<Rightarrow> string \<Rightarrow> form_spider" where
  "handle_login_form self u =
     self\<lparr>credentials_login_url := Some u, handled := HandleLoginForm u # handled self\<rparr>"

definition handle_registration_form :: "form_spider \<Rightarrow> string \<Rightarrow> form_spider" where
  "handle_registration_form self u =
     self\<lparr>credentials_registration_url := Some u,
          handled := HandleRegistrationForm u # handled self\<rparr>"

text \<open>The loop of \<^verbatim>\<open>FormSpider.parse\<close> over the form types found on a page.\<close>

fun scan_forms :: "form_spider \<Rightarrow> string \<Rightarrow> string list \<Rightarrow> form_spider" where
  "scan_forms self u [] = self"
| "scan_forms self u (form_type # rest) =
     (if form_type = ''login'' \<and> \<not> found_login self
      then scan_forms (handle_login_form (self\<lparr>found_login := True\<rparr>) u) u rest
      else if form_type = ''registration'' \<and> \<not> found_registration self
      then scan_forms (handle_registration_form (self\<lparr>found_registration := True\<rparr>) u) u rest
      else scan_forms self u rest)"

text \<open>
  \<^verbatim>\<open>FormSpider.parse\<close>: the spider after the call, and either the exception
  \<open>CloseSpider\<close> or the requests yielded, one per link.
\<close>

definition link_request :: "link \<Rightarrow> request" where
  "link_request l =
     \<lparr>request_url = Some (link_url l),
      request_callback = Parse,
      request_method = ''GET'',
      request_headers = [],
      request_body = [],
      request_meta_initial_cookies = None,
      request_dont_filter = False,
      request_priority = link_priority l\<rparr>"

definition form_spider_parse ::
  "('f, 'v) externals \<Rightarrow> form_spider \<Rightarrow> response \<Rightarrow> form_spider \<times> (exn + request list)"
where
  "form_spider_parse ext self r =
     (let self1 =
        (if response_text r \<noteq> []
         then scan_forms self (response_url r)
                (map (\<lambda>(form, meta). meta_form meta) (extract_forms ext (response_text r)))
         else self)
      in if found_registration self1 \<and> found_login self1
         then (self1, Inl CloseSpider)
         else (self1, Inr (map link_request (extract_links ext r))))"

text \<open>
  A crawl hands the responses to the callback one after the other; the spider's state
  after a sequence of responses, whatever each call yielded or raised.
\<close>

fun crawl :: "('f, 'v) externals \<Rightarrow> form_spider \<Rightarrow> response list \<Rightarrow> form_spider" where
  "crawl ext self [] = self"
| "crawl ext self (r # rs) = crawl ext (fst (form_spider_parse ext self r)) rs"

section \<open>A small form library for concrete runs\<close>

text \<open>
  To run the model on concrete pages, the external collaborators are instantiated with
  a small form library: a form is its action, its method and its named controls in
  document order, one entry for each name. A control is a text input, a checkbox
  (checked or not, with its value attribute), a drop-down list (its options and the
  selected one), a submit button, or a checkbox group: the checkboxes that share one
  name, each with its value attribute and whether it is checked. The value of a control
  is a string or \<^verbatim>\<open>None\<close>; the value of a checkbox group is the collection of the
  values of its checked boxes.
\<close>

datatype control =
  TextInput "string option"
| CheckboxInput bool string
| SelectElement "string list" "string option"
| SubmitInput "string option"
| CheckboxGroup "(string \<times> bool) list"

datatype field_value = Single "string option" | Several "string list"

record html_form =
  html_action :: "string option"
  html_method :: string
  html_controls :: "(string \<times> control) list"

text \<open>
  Assigning to a control: a text input and a submit button take any value; a checkbox
  is checked by a non-empty value; a drop-down list takes the value of one of its
  options only and raises \<open>ValueError\<close> otherwise, unchanged. A checkbox group takes a
  collection of values: all its boxes are unchecked, then for each element of the
  collection in turn the first box with that value is checked, and \<open>KeyError\<close> is
  raised at the first element that is the value of no box. A string assigned to a group
  is taken as the collection of its characters.
\<close>

fun check_value :: "(string \<times> bool) list \<Rightarrow> string \<Rightarrow> (string \<times> bool) list option" where
  "check_value [] x = None"
| "check_value ((a, checked) # boxes) x =
     (if a = x then Some ((a, True) # boxes)
      else map_option (\<lambda>bs. (a, checked) # bs) (check_value boxes x))"

fun add_values :: "(string \<times> bool) list \<Rightarrow> string list \<Rightarrow> (string \<times> bool) list \<times> exn option" where
  "add_values boxes [] = (boxes, None)"
| "add_values boxes (x # xs) =
     (case check_value boxes x of
        None \<Rightarrow> (boxes, Some KeyError)
      | Some boxes' \<Rightarrow> add_values boxes' xs)"

fun set_control :: "control \<Rightarrow> string \<Rightarrow> control \<times> exn option" where
  "set_control (TextInput old) v = (TextInput (Some v), None)"
| "set_control (CheckboxInput checked a) v =
     (if v = [] then (CheckboxInput False a, None) else (CheckboxInput True v, None))"
| "set_control (SelectElement options selected) v =
     (if v \<in> set options then (SelectElement options (Some v), None)
      else (SelectElement options selected, Some ValueError))"
| "set_control (SubmitInput old) v = (SubmitInput (Some v), None)"
| "set_control (CheckboxGroup boxes) v =
     (case add_values (map (\<lambda>(a, checked). (a, False)) boxes) (map (\<lambda>c. [c]) v) of
        (boxes', e) \<Rightarrow> (CheckboxGroup boxes', e))"

fun set_named ::
  "(string \<times> control) list \<Rightarrow> string \<Rightarrow> string \<Rightarrow> (string \<times> control) list \<times> exn option"
where
  "set_named [] n v = ([], Some KeyError)"
| "set_named ((m, c) # cs) n v =
     (if m = n then (case set_control c v of (c', e) \<Rightarrow> ((m, c') # cs, e))
      else (case set_named cs n v of (cs', e) \<Rightarrow> ((m, c) # cs', e)))"

fun control_value :: "control \<Rightarrow> field_value" where
  "control_value (TextInput v) = Single v"
| "control_value (CheckboxInput checked a) = Single (if checked then Some a else None)"
| "control_value (SelectElement options selected) = Single selected"
| "control_value (SubmitInput v) = Single v"
| "control_value (CheckboxGroup boxes) = Several (map fst (filter snd boxes))"

fun get_named :: "(string \<times> control) list \<Rightarrow> string \<Rightarrow> exn + field_value" where
  "get_named [] n = Inl KeyError"
| "get_named ((m, c) # cs) n = (if m = n then Inr (control_value c) else get_named cs n)"

text \<open>
  The values a form submits by default: every control that has a value, in document
  order, with one pair for each checked box of a group, submit buttons left out.
\<close>

fun control_pairs :: "(string \<times> control) list \<Rightarrow> (string \<times> field_value) list" where
  "control_pairs [] = []"
| "control_pairs ((n, SubmitInput v) # cs) = control_pairs cs"
| "control_pairs ((n, c) # cs) =
     (case control_value c of
        Single None \<Rightarrow> control_pairs cs
      | Single (Some v) \<Rightarrow> (n, Single (Some v)) # control_pairs cs
      | Several vs \<Rightarrow> map (\<lambda>v. (n, Single (Some v))) vs @ control_pairs cs)"

text \<open>
  URL encoding of pairs whose names and values need no quoting:
  \<^verbatim>\<open>name=value\<close> joined by \<^verbatim>\<open>&\<close>, the value \<^verbatim>\<open>None\<close> printed as such and
  a collection of values printed as its elements between braces.
\<close>

fun print_value :: "field_value \<Rightarrow> string" where
  "print_value (Single None) = ''None''"
| "print_value (Single (Some s)) = s"
| "print_value (Several vs) = ''{'' @ concat (map (\<lambda>v. v @ '','') vs) @ ''}''"

fun plain_urlencode :: "(string \<times> field_value) list \<Rightarrow> string" where
  "plain_urlencode [] = []"
| "plain_urlencode ((k, v) # rest) =
     k @ ''='' @ print_value v
     @ (if rest = [] then [] else ''&'' @ plain_urlencode rest)"

text \<open>
  The collaborators for pages given as a table: \<open>pages\<close> maps the text of a page to
  its classified forms, \<open>links\<close> maps the URL of a response to the links on it. The
  base URL of a response is its URL, and joining a base with an action returns the
  action where it is a full URL and the base where there is none. Of the base64 strings
  only the one the examples use is decoded, \<^verbatim>\<open>cGFnZQ==\<close> for the bytes
  \<^verbatim>\<open>page\<close>; every other string counts as malformed.
\<close>

definition table_externals ::
  "(string \<times> (html_form \<times> meta) list) list \<Rightarrow> (string \<times> link list) list
     \<Rightarrow> (html_form, field_value) externals"
where
  "table_externals pages links =
     \<lparr>extract_forms = (\<lambda>html. case map_of pages html of None \<Rightarrow> [] | Some fs \<Rightarrow> fs),
      get_base_url = response_url,
      fields_setitem = (\<lambda>form n v.
         case set_named (html_controls form) n v of
           (cs, e) \<Rightarrow> (form\<lparr>html_controls := cs\<rparr>, e)),
      fields_getitem = (\<lambda>form n. get_named (html_controls form) n),
      form_values = (\<lambda>form. control_pairs (html_controls form)),
      form_action = html_action,
      form_method = html_method,
      urljoin = (\<lambda>base u. case u of None \<Rightarrow> base | Some a \<Rightarrow> if a = [] then base else a),
      urlencode = plain_urlencode,
      b64decode = (\<lambda>s. if s = ''cGFnZQ=='' then Inr ''page'' else Inl ValueError),
      extract_links = (\<lambda>r. case map_of links (response_url r) of None \<Rightarrow> [] | Some ls \<Rightarrow> ls)\<rparr>"

subsection \<open>Example data\<close>

definition sid_cookie :: cookie where
  "sid_cookie =
     \<lparr>cookie_name = ''sid'', cookie_value = ''abc'', cookie_domain = ''x.com'',
      cookie_path = ''/'', cookie_port = Some ''443'', cookie_version = Some 0,
      cookie_secure = True, cookie_expires = None, cookie_discard = True\<rparr>"

definition plain_spider :: login_spider where
  "plain_spider =
     \<lparr>spider_username = ''alice'', spider_password = ''s3cret'',
      using_splash = False, debug_enabled = False\<rparr>"

definition blank_response :: response where
  "blank_response =
     \<lparr>response_url = ''https://x.com/login'', response_text = ''<login page>'',
      cookiejar = None, exposed_cookiejar = None, meta_initial_cookies = None,
      data_page = None\<rparr>"

text \<open>
  A second cookie, a spider that uses the rendering service with the logger enabled for
  debugging, and a response of the rendering service with its page image.
\<close>

definition lang_cookie :: cookie where
  "lang_cookie =
     \<lparr>cookie_name = ''lang'', cookie_value = ''en'', cookie_domain = ''x.com'',
      cookie_path = ''/'', cookie_port = None, cookie_version = Some 0,
      cookie_secure = False, cookie_expires = None, cookie_discard = False\<rparr>"

definition rendering_spider :: login_spider where
  "rendering_spider =
     \<lparr>spider_username = ''alice'', spider_password = ''s3cret'',
      using_splash = True, debug_enabled = True\<rparr>"

definition rendered_response :: response where
  "rendered_response =
     \<lparr>response_url = ''https://x.com/login'', response_text = ''<login page>'',
      cookiejar = Some (Some [sid_cookie]), exposed_cookiejar = None,
      meta_initial_cookies = Some [sid_cookie], data_page = Some ''cGFnZQ==''\<rparr>"

text \<open>
  A page with one login form: a user name, a password and a submit button, sent by
  POST.
\<close>

definition login_form_A :: html_form where
  "login_form_A =
     \<lparr>html_action = Some ''https://x.com/session'', html_method = ''POST'',
      html_controls = [(''user'', TextInput None), (''pass'', TextInput None),
                       (''go'', SubmitInput (Some ''Go''))]\<rparr>"

definition login_meta_A :: meta where
  "login_meta_A =
     \<lparr>meta_form = ''login'',
      meta_fields = [(''user'', ''username''), (''pass'', ''password''),
                     (''go'', ''submit button'')]\<rparr>"

definition site_A :: "(html_form, field_value) externals" where
  "site_A = table_externals [(''<login page>'', [(login_form_A, login_meta_A)])] []"

text \<open>The verdict of a login attempt: the exception, or whether the item says ok.\<close>

definition verdict :: "exn + item \<Rightarrow> exn + bool" where
  "verdict x = map_sum id ok x"

section \<open>Which field is first, which is last\<close>

text \<open>
  Among the fields whose type is in a set \<open>T\<close>, the name of the first and the name of
  the last in declaration order, if there is any.
\<close>

definition first_of_type :: "string set \<Rightarrow> (string \<times> string) list \<Rightarrow> string option" where
  "first_of_type T flds =
     (case filter (\<lambda>(n, t). t \<in> T) flds of [] \<Rightarrow> None | m # ms \<Rightarrow> Some (fst m))"

definition last_of_type :: "string set \<Rightarrow> (string \<times> string) list \<Rightarrow> string option" where
  "last_of_type T flds =
     (case filter (\<lambda>(n, t). t \<in> T) flds of
        [] \<Rightarrow> None
      | m # ms \<Rightarrow> Some (fst (last (m # ms))))"

subsection \<open>More example forms\<close>

text \<open>A login form with two fields for the user's name: a user name and an e-mail.\<close>

definition two_names_form :: html_form where
  "two_names_form =
     \<lparr>html_action = Some ''https://x.com/session'', html_method = ''POST'',
      html_controls = [(''user'', TextInput None), (''mail'', TextInput None),
                       (''pass'', TextInput None)]\<rparr>"

definition two_names_meta :: meta where
  "two_names_meta =
     \<lparr>meta_form = ''login'',
      meta_fields = [(''user'', ''username''), (''mail'', ''email''),
                     (''pass'', ''password'')]\<rparr>"

text \<open>A form classified as a login form that has no password field.\<close>

definition no_password_form :: html_form where
  "no_password_form =
     \<lparr>html_action = Some ''https://x.com/session'', html_method = ''POST'',
      html_controls = [(''email'', TextInput None), (''remember'', CheckboxInput False ''1'')]\<rparr>"

definition no_password_meta :: meta where
  "no_password_meta =
     \<lparr>meta_form = ''login'',
      meta_fields = [(''email'', ''username or email''),
                     (''remember'', ''remember me checkbox'')]\<rparr>"

definition site_B :: "(html_form, field_value) externals" where
  "site_B = table_externals [(''<login page>'', [(no_password_form, no_password_meta)])] []"

text \<open>
  A login form sent by GET with two fields classified as checkboxes to check, the first
  of which is a drop-down list in fact.
\<close>

definition remember_form :: html_form where
  "remember_form =
     \<lparr>html_action = Some ''https://x.com/session'', html_method = ''GET'',
      html_controls = [(''user'', TextInput None), (''pass'', TextInput None),
                       (''remember'', SelectElement [''yes'', ''no''] (Some ''no'')),
                       (''keep'', CheckboxInput False ''1'')]\<rparr>"

definition remember_meta :: meta where
  "remember_meta =
     \<lparr>meta_form = ''login'',
      meta_fields = [(''user'', ''username''), (''pass'', ''password''),
                     (''remember'', ''remember me checkbox''),
                     (''keep'', ''remember me checkbox'')]\<rparr>"

text \<open>
  A login form with two checkboxes of one name, classified as a checkbox to check.
\<close>

definition group_form :: html_form where
  "group_form =
     \<lparr>html_action = Some ''https://x.com/session'', html_method = ''POST'',
      html_controls = [(''user'', TextInput None), (''pass'', TextInput None),
                       (''keep'', CheckboxGroup [(''1'', False), (''2'', False)])]\<rparr>"

definition group_meta :: meta where
  "group_meta =
     \<lparr>meta_form = ''login'',
      meta_fields = [(''user'', ''username''), (''pass'', ''password''),
                     (''keep'', ''remember me checkbox'')]\<rparr>"

text \<open>A login form whose user name is chosen from a drop-down list.\<close>

definition select_user_form :: html_form where
  "select_user_form =
     \<lparr>html_action = Some ''https://x.com/session'', html_method = ''POST'',
      html_controls = [(''user'', SelectElement [''bob'', ''carol''] None),
                       (''pass'', TextInput None)]\<rparr>"

definition select_user_meta :: meta where
  "select_user_meta =
     \<lparr>meta_form = ''login'',
      meta_fields = [(''user'', ''username''), (''pass'', ''password'')]\<rparr>"

section \<open>Reading the priority rule and the flags\<close>

text \<open>
  The priority as the specification words it: computed from the link's path component
  and the link's text alone.
\<close>

definition path_text_priority :: "link \<Rightarrow> int" where
  "path_text_priority l =
     (let text = lower (path (link_parts l) @ '' '' @ link_text l) in
      if list_ex (\<lambda>pattern. contains pattern text) priority_patterns then 100 else 0)"

text \<open>
  A response has a form of a type if its text is not empty and the classifier finds a
  form of that type in it.
\<close>

definition form_types :: "('f, 'v) externals \<Rightarrow> response \<Rightarrow> string list" where
  "form_types ext r = map (\<lambda>(form, meta). meta_form meta) (extract_forms ext (response_text r))"

definition has_form :: "('f, 'v) externals \<Rightarrow> string \<Rightarrow> response \<Rightarrow> bool" where
  "has_form ext ty r = (response_text r \<noteq> [] \<and> ty \<in> set (form_types ext r))"

text \<open>How often each handler has been called.\<close>

fun is_login_call :: "handler_call \<Rightarrow> bool" where
  "is_login_call (HandleLoginForm u) = True"
| "is_login_call (HandleRegistrationForm u) = False"

definition login_calls :: "form_spider \<Rightarrow> nat" where
  "login_calls self = length (filter is_login_call (handled self))"

definition registration_calls :: "form_spider \<Rightarrow> nat" where
  "registration_calls self = length (filter (\<lambda>c. \<not> is_login_call c) (handled self))"

subsection \<open>Example links and pages\<close>

definition sign_up_link :: link where
  "sign_up_link =
     \<lparr>link_url = ''http://example.com/welcome'',
      link_parts = \<lparr>scheme = ''http'', netloc = ''example.com'', path = ''/welcome'',
                    query = [], fragment = []\<rparr>,
      link_text = ''Sign Up Now''\<rparr>"

definition about_link :: link where
  "about_link =
     \<lparr>link_url = ''http://example.com/about'',
      link_parts = \<lparr>scheme = ''http'', netloc = ''example.com'', path = ''/about'',
                    query = [], fragment = []\<rparr>,
      link_text = ''About Us''\<rparr>"

definition about_next_link :: link where
  "about_next_link =
     \<lparr>link_url = ''http://example.com/about?next=login'',
      link_parts = \<lparr>scheme = ''http'', netloc = ''example.com'', path = ''/about'',
                    query = ''next=login'', fragment = []\<rparr>,
      link_text = ''About Us''\<rparr>"

text \<open>
  A site whose start page has a login form and a registration form, and a site whose
  start page has only the login form; both pages link to the two example links.
\<close>

definition site_both :: "(html_form, field_value) externals" where
  "site_both =
     table_externals
       [(''<login page>'',
         [(login_form_A, login_meta_A),
          (login_form_A, login_meta_A\<lparr>meta_form := ''registration''\<rparr>)])]
       [(''https://x.com/login'', [sign_up_link, about_link])]"

definition site_login_only :: "(html_form, field_value) externals" where
  "site_login_only =
     table_externals
       [(''<login page>'', [(login_form_A, login_meta_A)])]
       [(''https://x.com/login'', [sign_up_link, about_link])]"

section \<open>Basic facts\<close>

lemma or_empty_Some [simp]: "or_empty (Some xs) = xs"
  by (simp add: or_empty_def)

lemma or_empty_None [simp]: "or_empty None = []"
  by (simp add: or_empty_def)

lemma cookie_dicts_Some [simp]: "cookie_dicts (Some cs) = Some cs"
  by (simp add: cookie_dicts_def)

lemma cookie_dicts_None [simp]: "cookie_dicts None = None"
  by (simp add: cookie_dicts_def)

lemmas constant_defs =
  USERNAME_FIELD_TYPES_def PASSWORD_FIELD_TYPES_def CHECK_CHECKBOXES_def
  SUBMIT_TYPES_def DEFAULT_POST_HEADERS_def

lemma parse_login_fst:
  "meta_initial_cookies r = Some A \<Longrightarrow>
   fst (parse_login ext self r) =
     (if set (cookie_tuples (or_empty (response_cookies r))) \<subseteq> set (cookie_tuples A)
      then (if using_splash self
            then (case data_page r of
                    None \<Rightarrow> Inl KeyError
                  | Some page \<Rightarrow>
                      (case b64decode ext page of
                         Inl e \<Rightarrow> Inl e
                       | Inr screenshot \<Rightarrow>
                           if debug_enabled self then Inl TypeError
                           else Inr (Failure ''badauth'')))
            else Inr (Failure ''badauth''))
      else Inr (Success (or_empty (response_cookies r)) (response_url r)))"
  by (simp add: parse_login_def debug_screenshot_def Let_def split: option.splits sum.splits)

section \<open>The verdict of the cookie comparison\<close>

text \<open>
  Claim C1. Let \<open>A\<close> be the initial cookies that the response of the submission carries
  and \<open>B\<close> the cookies of its jar. \<^verbatim>\<open>parse_login\<close> returns a success item if and only
  if the set of identity tuples of \<open>B\<close> is not a subset of that of \<open>A\<close>, and the item
  then holds \<open>B\<close>; so an empty \<open>A\<close> with a non-empty \<open>B\<close> gives success. Where the
  tuples of \<open>B\<close> are a subset of those of \<open>A\<close>, as they are for equal sets and for two
  empty sets, the failure \<^verbatim>\<open>badauth\<close> is returned by a spider that does not use the
  rendering service, and by one that does if its logger is not enabled for debugging
  and the page image decodes. A spider that uses the rendering service with the logger
  enabled for debugging returns no item there: the call ends with the \<open>TypeError\<close> of
  the write of the screenshot.
\<close>

theorem parse_login_outcome:
  assumes "meta_initial_cookies r = Some A" and "B = or_empty (response_cookies r)"
  shows "((\<exists>cs u. fst (parse_login ext self r) = Inr (Success cs u))
            \<longleftrightarrow> \<not> set (cookie_tuples B) \<subseteq> set (cookie_tuples A))
       \<and> (\<not> set (cookie_tuples B) \<subseteq> set (cookie_tuples A)
            \<longrightarrow> fst (parse_login ext self r) = Inr (Success B (response_url r)))
       \<and> (A = [] \<and> B \<noteq> [] \<longrightarrow> fst (parse_login ext self r) = Inr (Success B (response_url r)))
       \<and> (set (cookie_tuples B) \<subseteq> set (cookie_tuples A) \<and> \<not> using_splash self
            \<longrightarrow> fst (parse_login ext self r) = Inr (Failure ''badauth''))
       \<and> (set (cookie_tuples B) \<subseteq> set (cookie_tuples A) \<and> using_splash self
            \<and> \<not> debug_enabled self
            \<and> data_page r = Some page \<and> b64decode ext page = Inr screenshot
            \<longrightarrow> fst (parse_login ext self r) = Inr (Failure ''badauth''))
       \<and> (set (cookie_tuples B) \<subseteq> set (cookie_tuples A) \<and> using_splash self
            \<and> debug_enabled self
            \<and> data_page r = Some page \<and> b64decode ext page = Inr screenshot
            \<longrightarrow> fst (parse_login ext self r) = Inl TypeError)
       \<and> (B = A \<and> using_splash self \<and> debug_enabled self
            \<and> data_page r = Some page \<and> b64decode ext page = Inr screenshot
            \<longrightarrow> fst (parse_login ext self r) \<noteq> Inr (Failure ''badauth''))"
proof -
  note eq = parse_login_fst [OF assms(1), of ext self, folded assms(2)]
  have empty: "B \<noteq> [] \<Longrightarrow> \<not> set (cookie_tuples B) \<subseteq> set (cookie_tuples [])"
    by (simp add: cookie_tuples_def)
  have iff: "(\<exists>cs u. fst (parse_login ext self r) = Inr (Success cs u))
            \<longleftrightarrow> \<not> set (cookie_tuples B) \<subseteq> set (cookie_tuples A)"
    by (auto simp: eq split: option.splits sum.splits)
  have succ: "\<not> set (cookie_tuples B) \<subseteq> set (cookie_tuples A)
            \<longrightarrow> fst (parse_login ext self r) = Inr (Success B (response_url r))"
    by (simp add: eq)
  have first: "A = [] \<and> B \<noteq> [] \<longrightarrow> fst (parse_login ext self r) = Inr (Success B (response_url r))"
    using empty by (auto simp: eq)
  have plain: "set (cookie_tuples B) \<subseteq> set (cookie_tuples A) \<and> \<not> using_splash self
            \<longrightarrow> fst (parse_login ext self r) = Inr (Failure ''badauth'')"
    by (simp add: eq)
  have quiet: "set (cookie_tuples B) \<subseteq> set (cookie_tuples A) \<and> using_splash self
            \<and> \<not> debug_enabled self
            \<and> data_page r = Some page \<and> b64decode ext page = Inr screenshot
            \<longrightarrow> fst (parse_login ext self r) = Inr (Failure ''badauth'')"
    by (simp add: eq)
  have raised: "set (cookie_tuples B) \<subseteq> set (cookie_tuples A) \<and> using_splash self
            \<and> debug_enabled self
            \<and> data_page r = Some page \<and> b64decode ext page = Inr screenshot
            \<longrightarrow> fst (parse_login ext self r) = Inl TypeError"
    by (simp add: eq)
  have same: "B = A \<and> using_splash self \<and> debug_enabled self
            \<and> data_page r = Some page \<and> b64decode ext page = Inr screenshot
            \<longrightarrow> fst (parse_login ext self r) \<noteq> Inr (Failure ''badauth'')"
    by (simp add: eq)
  from iff succ first plain quiet raised same show ?thesis
    by (intro conjI)
qed

theorem parse_login_outcome_witness:
  "fst (parse_login site_A rendering_spider rendered_response) = Inl TypeError
   \<and> fst (parse_login site_A plain_spider rendered_response) = Inr (Failure ''badauth'')
   \<and> fst (parse_login site_A plain_spider
            (rendered_response\<lparr>cookiejar := Some (Some [sid_cookie, lang_cookie])\<rparr>))
       = Inr (Success [sid_cookie, lang_cookie] ''https://x.com/login'')"
proof -
  have m: "meta_initial_cookies rendered_response = Some [sid_cookie]"
    "meta_initial_cookies (rendered_response\<lparr>cookiejar := Some (Some [sid_cookie, lang_cookie])\<rparr>)
       = Some [sid_cookie]"
    by (simp_all add: rendered_response_def)
  have b: "[sid_cookie] = or_empty (response_cookies rendered_response)"
    "[sid_cookie, lang_cookie] = or_empty (response_cookies
        (rendered_response\<lparr>cookiejar := Some (Some [sid_cookie, lang_cookie])\<rparr>))"
    by (simp_all add: rendered_response_def response_cookies_def)
  have new: "\<not> set (cookie_tuples [sid_cookie, lang_cookie]) \<subseteq> set (cookie_tuples [sid_cookie])"
    by (simp add: cookie_tuples_def cookie_tuple_def sid_cookie_def lang_cookie_def)
  have page: "data_page rendered_response = Some ''cGFnZQ==''"
    "b64decode site_A ''cGFnZQ=='' = Inr ''page''"
    by (simp_all add: rendered_response_def site_A_def table_externals_def)
  have s: "using_splash rendering_spider" "debug_enabled rendering_spider"
    "\<not> using_splash plain_spider"
    by (simp_all add: rendering_spider_def plain_spider_def)
  have u: "response_url (rendered_response\<lparr>cookiejar := Some (Some [sid_cookie, lang_cookie])\<rparr>)
      = ''https://x.com/login''"
    by (simp add: rendered_response_def)
  show ?thesis
    using parse_login_outcome [OF m(1) b(1), of site_A rendering_spider "''cGFnZQ==''" "''page''"]
      parse_login_outcome [OF m(1) b(1), of site_A plain_spider]
      parse_login_outcome [OF m(2) b(2), of site_A plain_spider]
      new page s u
    by simp
qed

text \<open>
  Claim C4. Two cookies have the same identity tuple exactly when they agree on name,
  value, domain, path and port. The value is part of it: a cookie with another value
  has another tuple, and a jar that holds it after a submission that started with
  the old one gives success. The attributes outside the tuple do not matter: changing
  them leaves the tuple as it is, and for one spider two responses whose initial and
  final cookies have the same tuples, and which carry the same page image, get the same
  verdict.
\<close>

theorem cookie_identity_is_five_tuple:
  "(cookie_tuple c = cookie_tuple c' \<longleftrightarrow>
      cookie_name c = cookie_name c' \<and> cookie_value c = cookie_value c'
      \<and> cookie_domain c = cookie_domain c' \<and> cookie_path c = cookie_path c'
      \<and> cookie_port c = cookie_port c')
   \<and> (v \<noteq> cookie_value c \<longrightarrow> cookie_tuple (c\<lparr>cookie_value := v\<rparr>) \<noteq> cookie_tuple c)
   \<and> (v \<noteq> cookie_value c \<and> meta_initial_cookies r = Some [c]
        \<and> response_cookies r = Some [c\<lparr>cookie_value := v\<rparr>]
      \<longrightarrow> fst (parse_login ext self r)
            = Inr (Success [c\<lparr>cookie_value := v\<rparr>] (response_url r)))
   \<and> cookie_tuple (c\<lparr>cookie_version := ve, cookie_secure := se, cookie_expires := ex,
                      cookie_discard := di\<rparr>) = cookie_tuple c
   \<and> (meta_initial_cookies r1 = Some A1 \<and> meta_initial_cookies r2 = Some A2
        \<and> cookie_tuples A1 = cookie_tuples A2
        \<and> cookie_tuples (or_empty (response_cookies r1))
            = cookie_tuples (or_empty (response_cookies r2))
        \<and> data_page r1 = data_page r2
      \<longrightarrow> verdict (fst (parse_login ext self r1)) = verdict (fst (parse_login ext self r2)))"
proof (intro conjI impI)
  show "cookie_tuple c = cookie_tuple c' \<longleftrightarrow>
      cookie_name c = cookie_name c' \<and> cookie_value c = cookie_value c'
      \<and> cookie_domain c = cookie_domain c' \<and> cookie_path c = cookie_path c'
      \<and> cookie_port c = cookie_port c'"
    by (auto simp: cookie_tuple_def)
next
  assume "v \<noteq> cookie_value c"
  then show "cookie_tuple (c\<lparr>cookie_value := v\<rparr>) \<noteq> cookie_tuple c"
    by (simp add: cookie_tuple_def)
next
  assume "v \<noteq> cookie_value c \<and> meta_initial_cookies r = Some [c]
        \<and> response_cookies r = Some [c\<lparr>cookie_value := v\<rparr>]"
  then show "fst (parse_login ext self r)
      = Inr (Success [c\<lparr>cookie_value := v\<rparr>] (response_url r))"
    by (simp add: parse_login_fst cookie_tuples_def cookie_tuple_def)
next
  show "cookie_tuple (c\<lparr>cookie_version := ve, cookie_secure := se, cookie_expires := ex,
                      cookie_discard := di\<rparr>) = cookie_tuple c"
    by (simp add: cookie_tuple_def)
next
  assume "meta_initial_cookies r1 = Some A1 \<and> meta_initial_cookies r2 = Some A2
        \<and> cookie_tuples A1 = cookie_tuples A2
        \<and> cookie_tuples (or_empty (response_cookies r1))
            = cookie_tuples (or_empty (response_cookies r2))
        \<and> data_page r1 = data_page r2"
  then show "verdict (fst (parse_login ext self r1)) = verdict (fst (parse_login ext self r2))"
    by (simp add: parse_login_fst verdict_def)
qed

theorem cookie_identity_is_five_tuple_witness:
  "fst (parse_login site_A plain_spider
          (blank_response\<lparr>cookiejar := Some (Some [sid_cookie\<lparr>cookie_value := ''xyz''\<rparr>]),
                          meta_initial_cookies := Some [sid_cookie]\<rparr>))
     = Inr (Success [sid_cookie\<lparr>cookie_value := ''xyz''\<rparr>] ''https://x.com/login'')
   \<and> verdict (fst (parse_login site_A rendering_spider
          (rendered_response\<lparr>cookiejar := Some (Some [sid_cookie\<lparr>cookie_secure := False,
                                                    cookie_expires := Some 86400\<rparr>])\<rparr>)))
     = verdict (fst (parse_login site_A rendering_spider rendered_response))
   \<and> verdict (fst (parse_login site_A rendering_spider rendered_response)) = Inl TypeError"
proof -
  have t: "verdict (fst (parse_login site_A rendering_spider rendered_response)) = Inl TypeError"
    by (simp add: parse_login_fst [of _ "[sid_cookie]"] rendered_response_def
        response_cookies_def rendering_spider_def site_A_def table_externals_def verdict_def)
  show ?thesis
    using cookie_identity_is_five_tuple
      [where c = sid_cookie and v = "''xyz''" and self = plain_spider and ext = site_A
         and r = "blank_response\<lparr>cookiejar := Some (Some [sid_cookie\<lparr>cookie_value := ''xyz''\<rparr>]),
                            meta_initial_cookies := Some [sid_cookie]\<rparr>"]
      cookie_identity_is_five_tuple
      [where self = rendering_spider and ext = site_A
         and ?r1.0 = "rendered_response\<lparr>cookiejar := Some (Some [sid_cookie\<lparr>cookie_secure := False,
                                                      cookie_expires := Some 86400\<rparr>])\<rparr>"
         and ?A1.0 = "[sid_cookie]"
         and ?r2.0 = rendered_response
         and ?A2.0 = "[sid_cookie]"]
      t
    by (simp add: response_cookies_def blank_response_def rendered_response_def
        cookie_tuples_def cookie_tuple_def sid_cookie_def)
qed

text \<open>
  Claim C10. If the response of the first fetch exposes no cookie jar, \<^verbatim>\<open>cookie_dicts\<close>
  gives \<^verbatim>\<open>None\<close> and the request that \<^verbatim>\<open>parse\<close> builds carries the empty list as
  initial cookies. Whatever non-empty jar the response to that request then has,
  \<^verbatim>\<open>parse_login\<close> returns success with those cookies.
\<close>

theorem missing_jar_counts_as_empty:
  assumes "response_cookies r = None"
    and "parse ext self r = Inr (Request rq)"
    and "response_cookies r2 = Some cs" and "cs \<noteq> []"
  shows "cookie_dicts (response_cookies r) = None
       \<and> request_meta_initial_cookies rq = Some []
       \<and> fst (parse_login ext2 self2 (response_of rq r2)) = Inr (Success cs (response_url r2))"
proof -
  from assms(2) have "request_meta_initial_cookies rq
      = Some (or_empty (cookie_dicts (response_cookies r)))"
    by (auto simp: parse_def Let_def split: option.splits prod.splits sum.splits)
  with assms(1) have m0: "request_meta_initial_cookies rq = Some []"
    by simp
  have rc: "response_cookies (response_of rq r2) = Some cs"
    using assms(3) by (simp add: response_of_def response_cookies_def split: option.splits)
  have "meta_initial_cookies (response_of rq r2) = Some []"
    using m0 by (simp add: response_of_def)
  then have "fst (parse_login ext2 self2 (response_of rq r2))
      = Inr (Success cs (response_url (response_of rq r2)))"
    using rc assms(4) by (simp add: parse_login_fst cookie_tuples_def)
  then show ?thesis
    using assms(1) m0 by (simp add: response_of_def)
qed

lemma parse_site_A:
  "parse site_A plain_spider blank_response = Inr (Request
     \<lparr>request_url = Some ''https://x.com/session'', request_callback = ParseLogin,
      request_method = ''POST'',
      request_headers = [(''Content-Type'', ''application/x-www-form-urlencoded'')],
      request_body = ''user=alice&pass=s3cret&go=Go'',
      request_meta_initial_cookies = Some [],
      request_dont_filter = True, request_priority = 0\<rparr>)"
  by (simp add: parse_def get_login_form_def login_params_def site_A_def table_externals_def
      login_form_A_def login_meta_A_def constant_defs plain_spider_def blank_response_def
      response_cookies_def)

theorem missing_jar_counts_as_empty_witness:
  "response_cookies blank_response = None
   \<and> (\<exists>rq. parse site_A plain_spider blank_response = Inr (Request rq)
        \<and> request_meta_initial_cookies rq = Some []
        \<and> fst (parse_login site_A plain_spider
                 (response_of rq (blank_response\<lparr>exposed_cookiejar := Some [sid_cookie]\<rparr>)))
           = Inr (Success [sid_cookie] ''https://x.com/login''))"
proof -
  have jar: "response_cookies blank_response = None"
    by (simp add: response_cookies_def blank_response_def)
  have jar2: "response_cookies (blank_response\<lparr>exposed_cookiejar := Some [sid_cookie]\<rparr>)
      = Some [sid_cookie]"
    by (simp add: response_cookies_def blank_response_def)
  have u: "response_url (blank_response\<lparr>exposed_cookiejar := Some [sid_cookie]\<rparr>)
      = ''https://x.com/login''"
    by (simp add: blank_response_def)
  show ?thesis
    using missing_jar_counts_as_empty [OF jar parse_site_A jar2, of site_A plain_spider]
      jar parse_site_A u
    by simp
qed

section \<open>The loops of \<^verbatim>\<open>login_params\<close>\<close>

lemma last_of_type_Cons:
  "last_of_type T ((n, t) # flds) =
     (case last_of_type T flds of
        Some m \<Rightarrow> Some m
      | None \<Rightarrow> if t \<in> T then Some n else None)"
  by (simp add: last_of_type_def split: list.splits)

lemma disjoint_types: "t \<in> USERNAME_FIELD_TYPES \<Longrightarrow> t \<notin> PASSWORD_FIELD_TYPES"
  by (auto simp: USERNAME_FIELD_TYPES_def PASSWORD_FIELD_TYPES_def)

lemma find_fields_last:
  "find_fields flds u p =
     (case last_of_type USERNAME_FIELD_TYPES flds of None \<Rightarrow> u | Some n \<Rightarrow> Some n,
      case last_of_type PASSWORD_FIELD_TYPES flds of None \<Rightarrow> p | Some n \<Rightarrow> Some n)"
proof (induction flds arbitrary: u p)
  case Nil
  then show ?case by (simp add: last_of_type_def)
next
  case (Cons f flds)
  obtain n t where f: "f = (n, t)" by (cases f)
  show ?case
    unfolding f
    by (simp add: Cons.IH last_of_type_Cons disjoint_types split: option.splits)
qed

lemma find_fields_None_None:
  "find_fields flds None None =
     (last_of_type USERNAME_FIELD_TYPES flds, last_of_type PASSWORD_FIELD_TYPES flds)"
  by (simp add: find_fields_last split: option.splits)

lemma last_of_type_None: "last_of_type T flds = None \<longleftrightarrow> set (map snd flds) \<inter> T = {}"
  by (induction flds) (auto simp: last_of_type_Cons last_of_type_def split: option.splits)

lemma first_eq_last:
  "length (filter (\<lambda>(n, t). t \<in> T) flds) \<le> 1 \<Longrightarrow> first_of_type T flds = last_of_type T flds"
  by (cases "filter (\<lambda>(n, t). t \<in> T) flds") (auto simp: first_of_type_def last_of_type_def)

lemma login_params_None:
  assumes "find_fields (meta_fields meta) None None = (u, p)" and "u = None \<or> p = None"
  shows "login_params ext url username password form meta = (form, Inr None)"
  using assms by (auto simp: login_params_def Let_def split: option.splits)

lemma login_params_Some:
  assumes "login_params ext url username password form meta = (form', Inr (Some ps))"
  shows "\<exists>uf pf form1 form2 submit_values.
           find_fields (meta_fields meta) None None = (Some uf, Some pf)
         \<and> check_checkboxes ext (meta_fields meta) form = (form1, None)
         \<and> fields_setitem ext form1 uf username = (form2, None)
         \<and> fields_setitem ext form2 pf password = (form', None)
         \<and> append_submit_values ext form' (meta_fields meta) (form_values ext form')
             = Inr submit_values
         \<and> ps = \<lparr>params_url =
                   (case url of None \<Rightarrow> form_action ext form'
                    | Some u \<Rightarrow> Some (urljoin ext u (form_action ext form'))),
                 params_method = form_method ext form',
                 params_headers =
                   (if form_method ext form' = ''POST'' then DEFAULT_POST_HEADERS else []),
                 params_body = urlencode ext submit_values\<rparr>"
  using assms
  by (auto simp: login_params_def Let_def split: option.splits prod.splits sum.splits)

lemma append_submit_values_Inr:
  "append_submit_values ext form flds acc = Inr res \<Longrightarrow>
   \<exists>submits. res = acc @ submits
     \<and> map fst submits = map fst (filter (\<lambda>(n, t). t \<in> SUBMIT_TYPES) flds)
     \<and> list_all (\<lambda>(n, v). fields_getitem ext form n = Inr v) submits"
proof (induction flds arbitrary: acc)
  case Nil
  then show ?case by simp
next
  case (Cons f flds)
  obtain n t where f: "f = (n, t)" by (cases f)
  show ?case
  proof (cases "t \<in> SUBMIT_TYPES")
    case True
    with Cons.prems f obtain v where v: "fields_getitem ext form n = Inr v"
      and rest: "append_submit_values ext form flds (acc @ [(n, v)]) = Inr res"
      by (auto split: sum.splits)
    from Cons.IH [OF rest] obtain submits where s: "res = (acc @ [(n, v)]) @ submits"
      "map fst submits = map fst (filter (\<lambda>(n, t). t \<in> SUBMIT_TYPES) flds)"
      "list_all (\<lambda>(n, v). fields_getitem ext form n = Inr v) submits"
      by blast
    show ?thesis
      using s v True f by (intro exI [of _ "(n, v) # submits"]) simp
  next
    case False
    with Cons.prems f have "append_submit_values ext form flds acc = Inr res"
      by simp
    from Cons.IH [OF this] False f show ?thesis
      by simp
  qed
qed

lemma check_checkboxes_no_ValueError:
  "snd (check_checkboxes ext flds form) \<noteq> Some ValueError"
proof (induction flds arbitrary: form)
  case Nil
  then show ?case by simp
next
  case (Cons f flds)
  obtain n t where f: "f = (n, t)" by (cases f)
  show ?case
    unfolding f using Cons.IH by (auto split: prod.splits)
qed

lemma check_checkboxes_foldl:
  "snd (check_checkboxes ext flds form) = None \<Longrightarrow>
   fst (check_checkboxes ext flds form) =
     foldl (\<lambda>f n. fst (fields_setitem ext f n ''on'')) form
       (map fst (filter (\<lambda>(n, t). t \<in> CHECK_CHECKBOXES) flds))"
proof (induction flds arbitrary: form)
  case Nil
  then show ?case by simp
next
  case (Cons f flds)
  obtain n t where f: "f = (n, t)" by (cases f)
  show ?case
    using Cons.prems unfolding f
    by (auto split: prod.splits if_splits simp: Cons.IH)
qed

lemmas example_defs =
  table_externals_def login_form_A_def login_meta_A_def two_names_form_def two_names_meta_def
  no_password_form_def no_password_meta_def remember_form_def remember_meta_def
  select_user_form_def select_user_meta_def group_form_def group_meta_def

lemma login_params_site_A:
  "login_params site_A (Some ''https://x.com/login'') ''alice'' ''s3cret''
     login_form_A login_meta_A
   = (login_form_A\<lparr>html_controls :=
         [(''user'', TextInput (Some ''alice'')), (''pass'', TextInput (Some ''s3cret'')),
          (''go'', SubmitInput (Some ''Go''))]\<rparr>,
      Inr (Some \<lparr>params_url = Some ''https://x.com/session'', params_method = ''POST'',
        params_headers = [(''Content-Type'', ''application/x-www-form-urlencoded'')],
        params_body = ''user=alice&pass=s3cret&go=Go''\<rparr>))"
  by (simp add: login_params_def site_A_def example_defs constant_defs)

lemma login_params_two_names:
  "login_params (table_externals [] []) (Some ''https://x.com/login'') ''alice'' ''s3cret''
     two_names_form two_names_meta
   = (two_names_form\<lparr>html_controls :=
         [(''user'', TextInput None), (''mail'', TextInput (Some ''alice'')),
          (''pass'', TextInput (Some ''s3cret''))]\<rparr>,
      Inr (Some \<lparr>params_url = Some ''https://x.com/session'', params_method = ''POST'',
        params_headers = [(''Content-Type'', ''application/x-www-form-urlencoded'')],
        params_body = ''mail=alice&pass=s3cret''\<rparr>))"
  by (simp add: login_params_def example_defs constant_defs)

lemma login_params_remember:
  "login_params (table_externals [] []) (Some ''https://x.com/login'') ''alice'' ''s3cret''
     remember_form remember_meta
   = (remember_form\<lparr>html_controls :=
         [(''user'', TextInput (Some ''alice'')), (''pass'', TextInput (Some ''s3cret'')),
          (''remember'', SelectElement [''yes'', ''no''] (Some ''no'')),
          (''keep'', CheckboxInput True ''on'')]\<rparr>,
      Inr (Some \<lparr>params_url = Some ''https://x.com/session'', params_method = ''GET'',
        params_headers = [],
        params_body = ''user=alice&pass=s3cret&remember=no&keep=on''\<rparr>))"
  by (simp add: login_params_def example_defs constant_defs)

lemma login_params_select_user:
  "login_params (table_externals [] []) (Some ''https://x.com/login'') ''alice'' ''s3cret''
     select_user_form select_user_meta
   = (select_user_form, Inl ValueError)"
  by (simp add: login_params_def example_defs constant_defs)

section \<open>Which fields receive the credentials\<close>

text \<open>
  Claim C2, as the code has it. The loop keeps the name of the latest field of each
  kind, so the user name field it selects is the last field whose type is among the
  user name types, and the password field is the last field typed as a password.
  Where a form has at most one field of a kind, the last one is also the first one.
  In every call that returns a submission, the user name and the password have been
  assigned to these two fields, after the checkboxes.
\<close>

theorem find_fields_selects_last_field:
  "find_fields flds None None =
     (last_of_type USERNAME_FIELD_TYPES flds, last_of_type PASSWORD_FIELD_TYPES flds)
   \<and> (length (filter (\<lambda>(n, t). t \<in> USERNAME_FIELD_TYPES) flds) \<le> 1
        \<longrightarrow> fst (find_fields flds None None) = first_of_type USERNAME_FIELD_TYPES flds)
   \<and> (length (filter (\<lambda>(n, t). t \<in> PASSWORD_FIELD_TYPES) flds) \<le> 1
        \<longrightarrow> snd (find_fields flds None None) = first_of_type PASSWORD_FIELD_TYPES flds)
   \<and> (login_params ext url username password form meta = (form', Inr (Some ps))
        \<and> flds = meta_fields meta
      \<longrightarrow> (\<exists>uf pf. last_of_type USERNAME_FIELD_TYPES flds = Some uf
             \<and> last_of_type PASSWORD_FIELD_TYPES flds = Some pf
             \<and> form' = fst (fields_setitem ext
                          (fst (fields_setitem ext (fst (check_checkboxes ext flds form))
                                  uf username))
                          pf password)))"
proof (intro conjI impI)
  show "find_fields flds None None =
     (last_of_type USERNAME_FIELD_TYPES flds, last_of_type PASSWORD_FIELD_TYPES flds)"
    by (rule find_fields_None_None)
next
  assume "length (filter (\<lambda>(n, t). t \<in> USERNAME_FIELD_TYPES) flds) \<le> 1"
  then show "fst (find_fields flds None None) = first_of_type USERNAME_FIELD_TYPES flds"
    by (simp add: find_fields_None_None first_eq_last)
next
  assume "length (filter (\<lambda>(n, t). t \<in> PASSWORD_FIELD_TYPES) flds) \<le> 1"
  then show "snd (find_fields flds None None) = first_of_type PASSWORD_FIELD_TYPES flds"
    by (simp add: find_fields_None_None first_eq_last)
next
  assume a: "login_params ext url username password form meta = (form', Inr (Some ps))
        \<and> flds = meta_fields meta"
  then obtain uf pf form1 form2 where
    ff: "find_fields flds None None = (Some uf, Some pf)"
    and c: "check_checkboxes ext flds form = (form1, None)"
    and u: "fields_setitem ext form1 uf username = (form2, None)"
    and p: "fields_setitem ext form2 pf password = (form', None)"
    using login_params_Some [of ext url username password form meta form' ps] by blast
  from ff have "last_of_type USERNAME_FIELD_TYPES flds = Some uf"
    and "last_of_type PASSWORD_FIELD_TYPES flds = Some pf"
    by (simp_all add: find_fields_None_None)
  then show "\<exists>uf pf. last_of_type USERNAME_FIELD_TYPES flds = Some uf
             \<and> last_of_type PASSWORD_FIELD_TYPES flds = Some pf
             \<and> form' = fst (fields_setitem ext
                          (fst (fields_setitem ext (fst (check_checkboxes ext flds form))
                                  uf username))
                          pf password)"
    using c u p by simp
qed

theorem find_fields_selects_last_field_witness:
  "find_fields (meta_fields two_names_meta) None None = (Some ''mail'', Some ''pass'')
   \<and> snd (find_fields (meta_fields two_names_meta) None None)
       = first_of_type PASSWORD_FIELD_TYPES (meta_fields two_names_meta)
   \<and> (\<exists>form' ps.
         login_params (table_externals [] []) (Some ''https://x.com/login'') ''alice'' ''s3cret''
           two_names_form two_names_meta = (form', Inr (Some ps))
       \<and> html_controls form' =
           [(''user'', TextInput None), (''mail'', TextInput (Some ''alice'')),
            (''pass'', TextInput (Some ''s3cret''))])"
  using find_fields_selects_last_field
    [where flds = "meta_fields two_names_meta" and ext = "table_externals [] []"
       and url = "Some ''https://x.com/login''" and username = "''alice''"
       and password = "''s3cret''" and form = two_names_form and meta = two_names_meta]
    login_params_two_names
  by (simp add: two_names_meta_def last_of_type_def first_of_type_def constant_defs)

text \<open>
  The claim as it is written says the first field of each kind. On the form with a
  user name field followed by an e-mail field the code selects the e-mail field, the
  first field of the kind is the user name field, and after the call the user name
  field is as it was while the e-mail field holds the credential.
\<close>

theorem first_field_counterexample:
  "first_of_type USERNAME_FIELD_TYPES (meta_fields two_names_meta) = Some ''user''
   \<and> fst (find_fields (meta_fields two_names_meta) None None) = Some ''mail''
   \<and> fst (find_fields (meta_fields two_names_meta) None None)
       \<noteq> first_of_type USERNAME_FIELD_TYPES (meta_fields two_names_meta)
   \<and> html_controls (fst (login_params (table_externals [] []) (Some ''https://x.com/login'')
         ''alice'' ''s3cret'' two_names_form two_names_meta))
     = [(''user'', TextInput None), (''mail'', TextInput (Some ''alice'')),
        (''pass'', TextInput (Some ''s3cret''))]"
  by (simp add: login_params_two_names)
     (simp add: two_names_meta_def first_of_type_def constant_defs)

section \<open>A login form without a user name or a password field\<close>

text \<open>
  Claim C5. Where the first login form of the page has no field typed as a password, or
  none of a user name type, \<^verbatim>\<open>login_params\<close> returns \<^verbatim>\<open>None\<close> and leaves the form
  as it was, whatever other fields there are. \<^verbatim>\<open>LoginSpider.parse\<close> then subscripts
  that \<^verbatim>\<open>None\<close>: the call ends with a \<open>TypeError\<close>, not with the item
  \<^verbatim>\<open>{'ok': False, 'error': 'nologinform'}\<close> that it returns when the page has no login
  form.
\<close>

theorem missing_field_raises_TypeError:
  assumes "get_login_form ext (response_text r) = Some (form, meta)"
    and "set (map snd (meta_fields meta)) \<inter> PASSWORD_FIELD_TYPES = {}
         \<or> set (map snd (meta_fields meta)) \<inter> USERNAME_FIELD_TYPES = {}"
  shows "login_params ext url username password form meta = (form, Inr None)
       \<and> parse ext self r = Inl TypeError
       \<and> parse ext self r \<noteq> Inr (Item (Failure ''nologinform''))"
proof -
  from assms(2) have
    "fst (find_fields (meta_fields meta) None None) = None
     \<or> snd (find_fields (meta_fields meta) None None) = None"
    by (auto simp: find_fields_None_None last_of_type_None)
  then have none: "\<And>url username password.
      login_params ext url username password form meta = (form, Inr None)"
    using login_params_None [of meta "fst (find_fields (meta_fields meta) None None)"
        "snd (find_fields (meta_fields meta) None None)"]
    by auto
  have "parse ext self r = Inl TypeError"
    using assms(1) by (simp add: parse_def none Let_def)
  then show ?thesis
    using none by simp
qed

theorem missing_field_raises_TypeError_witness:
  "get_login_form site_B (response_text blank_response) = Some (no_password_form, no_password_meta)
   \<and> set (map snd (meta_fields no_password_meta)) \<inter> PASSWORD_FIELD_TYPES = {}
   \<and> login_params site_B (Some ''https://x.com/login'') ''alice'' ''s3cret''
        no_password_form no_password_meta = (no_password_form, Inr None)
   \<and> parse site_B plain_spider blank_response = Inl TypeError"
proof -
  have g: "get_login_form site_B (response_text blank_response)
      = Some (no_password_form, no_password_meta)"
    by (simp add: get_login_form_def site_B_def table_externals_def blank_response_def
        no_password_meta_def)
  have p: "set (map snd (meta_fields no_password_meta)) \<inter> PASSWORD_FIELD_TYPES = {}"
    by (simp add: no_password_meta_def constant_defs)
  show ?thesis
    using missing_field_raises_TypeError [OF g disjI1 [OF p], of "Some ''https://x.com/login''"
        "''alice''" "''s3cret''" plain_spider] g p
    by simp
qed

section \<open>The submission that is built\<close>

text \<open>
  Claim C6. Where \<^verbatim>\<open>login_params\<close> returns a submission, its body is the URL encoding
  of the form's values (as \<^verbatim>\<open>form_values\<close> lists them for the form after the
  assignments) followed by one pair for every field typed as a submit button, in field
  order, each with the value the form holds for it. The method is the form's method; the
  headers are the content type header of URL-encoded forms exactly when the method is
  \<^verbatim>\<open>POST\<close> and empty otherwise; the URL is the form's action joined to the page URL.
\<close>

theorem login_params_submission:
  assumes "login_params ext url username password form meta = (form', Inr (Some ps))"
  shows "params_method ps = form_method ext form'
       \<and> (form_method ext form' = ''POST''
            \<longrightarrow> params_headers ps = [(''Content-Type'', ''application/x-www-form-urlencoded'')])
       \<and> (form_method ext form' \<noteq> ''POST'' \<longrightarrow> params_headers ps = [])
       \<and> (\<exists>submits.
             params_body ps = urlencode ext (form_values ext form' @ submits)
           \<and> map fst submits
               = map fst (filter (\<lambda>(n, t). t = ''submit button'') (meta_fields meta))
           \<and> list_all (\<lambda>(n, v). fields_getitem ext form' n = Inr v) submits)
       \<and> params_url ps =
           (case url of None \<Rightarrow> form_action ext form'
            | Some u \<Rightarrow> Some (urljoin ext u (form_action ext form')))"
proof -
  from login_params_Some [OF assms] obtain submit_values where
    a: "append_submit_values ext form' (meta_fields meta) (form_values ext form')
          = Inr submit_values"
    and ps: "ps = \<lparr>params_url =
                   (case url of None \<Rightarrow> form_action ext form'
                    | Some u \<Rightarrow> Some (urljoin ext u (form_action ext form'))),
                 params_method = form_method ext form',
                 params_headers =
                   (if form_method ext form' = ''POST'' then DEFAULT_POST_HEADERS else []),
                 params_body = urlencode ext submit_values\<rparr>"
    by blast
  from append_submit_values_Inr [OF a] obtain submits where
    s: "submit_values = form_values ext form' @ submits"
      "map fst submits = map fst (filter (\<lambda>(n, t). t \<in> SUBMIT_TYPES) (meta_fields meta))"
      "list_all (\<lambda>(n, v). fields_getitem ext form' n = Inr v) submits"
    by blast
  have body: "\<exists>submits.
             params_body ps = urlencode ext (form_values ext form' @ submits)
           \<and> map fst submits
               = map fst (filter (\<lambda>(n, t). t = ''submit button'') (meta_fields meta))
           \<and> list_all (\<lambda>(n, v). fields_getitem ext form' n = Inr v) submits"
    using s ps by (intro exI [of _ submits]) (simp add: SUBMIT_TYPES_def)
  show ?thesis
    using body by (simp add: ps DEFAULT_POST_HEADERS_def)
qed

theorem login_params_submission_witness:
  "(\<exists>form' ps.
      login_params site_A (Some ''https://x.com/login'') ''alice'' ''s3cret''
        login_form_A login_meta_A = (form', Inr (Some ps))
    \<and> params_method ps = ''POST''
    \<and> params_headers ps = [(''Content-Type'', ''application/x-www-form-urlencoded'')]
    \<and> params_body ps = ''user=alice&pass=s3cret&go=Go'')
   \<and> (\<exists>form' ps.
      login_params (table_externals [] []) (Some ''https://x.com/login'') ''alice'' ''s3cret''
        remember_form remember_meta = (form', Inr (Some ps))
    \<and> params_method ps = ''GET''
    \<and> params_headers ps = [])"
  using login_params_submission [OF login_params_site_A]
    login_params_submission [OF login_params_remember]
    login_params_site_A login_params_remember
  by (simp add: site_A_def example_defs)

section \<open>Checkboxes are checked on a best effort\<close>

text \<open>
  Claim C9, as the code has it. Every field typed as a remember-me checkbox is assigned
  \<^verbatim>\<open>'on'\<close>, in field order. A \<open>ValueError\<close> of such an assignment is passed over: the
  loop goes on with the next field and never ends with a \<open>ValueError\<close>, so the
  submission is built all the same. Any other exception of such an assignment ends the
  loop and \<^verbatim>\<open>login_params\<close> with it. Only that step is guarded: an exception of the
  assignment of the user name or of the password, a \<open>ValueError\<close> included, ends
  \<^verbatim>\<open>login_params\<close>.
\<close>

theorem only_ValueError_is_ignored:
  "snd (check_checkboxes ext flds form) \<noteq> Some ValueError
   \<and> (field_type \<in> CHECK_CHECKBOXES
        \<and> fields_setitem ext form field_name ''on'' = (form', Some ValueError)
      \<longrightarrow> check_checkboxes ext ((field_name, field_type) # flds) form
            = check_checkboxes ext flds form')
   \<and> (field_type \<in> CHECK_CHECKBOXES
        \<and> fields_setitem ext form field_name ''on'' = (form', Some e) \<and> e \<noteq> ValueError
      \<longrightarrow> check_checkboxes ext ((field_name, field_type) # flds) form = (form', Some e))
   \<and> (snd (check_checkboxes ext flds form) = None
      \<longrightarrow> fst (check_checkboxes ext flds form) =
            foldl (\<lambda>f n. fst (fields_setitem ext f n ''on'')) form
              (map fst (filter (\<lambda>(n, t). t = ''remember me checkbox'') flds)))
   \<and> (find_fields (meta_fields meta) None None = (Some uf, Some pf)
        \<and> check_checkboxes ext (meta_fields meta) form = (form1, Some e)
      \<longrightarrow> login_params ext url username password form meta = (form1, Inl e))
   \<and> (find_fields (meta_fields meta) None None = (Some uf, Some pf)
        \<and> check_checkboxes ext (meta_fields meta) form = (form1, None)
        \<and> fields_setitem ext form1 uf username = (form2, Some e)
      \<longrightarrow> login_params ext url username password form meta = (form2, Inl e))
   \<and> (find_fields (meta_fields meta) None None = (Some uf, Some pf)
        \<and> check_checkboxes ext (meta_fields meta) form = (form1, None)
        \<and> fields_setitem ext form1 uf username = (form2, None)
        \<and> fields_setitem ext form2 pf password = (form3, Some e)
      \<longrightarrow> login_params ext url username password form meta = (form3, Inl e))"
proof (intro conjI impI)
  show "snd (check_checkboxes ext flds form) \<noteq> Some ValueError"
    by (rule check_checkboxes_no_ValueError)
next
  assume "field_type \<in> CHECK_CHECKBOXES
        \<and> fields_setitem ext form field_name ''on'' = (form', Some ValueError)"
  then show "check_checkboxes ext ((field_name, field_type) # flds) form
            = check_checkboxes ext flds form'"
    by simp
next
  assume "field_type \<in> CHECK_CHECKBOXES
        \<and> fields_setitem ext form field_name ''on'' = (form', Some e) \<and> e \<noteq> ValueError"
  then show "check_checkboxes ext ((field_name, field_type) # flds) form = (form', Some e)"
    by simp
next
  assume "snd (check_checkboxes ext flds form) = None"
  then show "fst (check_checkboxes ext flds form) =
            foldl (\<lambda>f n. fst (fields_setitem ext f n ''on'')) form
              (map fst (filter (\<lambda>(n, t). t = ''remember me checkbox'') flds))"
    using check_checkboxes_foldl [of ext flds form] by (simp add: CHECK_CHECKBOXES_def)
next
  assume "find_fields (meta_fields meta) None None = (Some uf, Some pf)
        \<and> check_checkboxes ext (meta_fields meta) form = (form1, Some e)"
  then show "login_params ext url username password form meta = (form1, Inl e)"
    by (simp add: login_params_def)
next
  assume "find_fields (meta_fields meta) None None = (Some uf, Some pf)
        \<and> check_checkboxes ext (meta_fields meta) form = (form1, None)
        \<and> fields_setitem ext form1 uf username = (form2, Some e)"
  then show "login_params ext url username password form meta = (form2, Inl e)"
    by (simp add: login_params_def)
next
  assume "find_fields (meta_fields meta) None None = (Some uf, Some pf)
        \<and> check_checkboxes ext (meta_fields meta) form = (form1, None)
        \<and> fields_setitem ext form1 uf username = (form2, None)
        \<and> fields_setitem ext form2 pf password = (form3, Some e)"
  then show "login_params ext url username password form meta = (form3, Inl e)"
    by (simp add: login_params_def)
qed

theorem only_ValueError_is_ignored_witness:
  "fields_setitem (table_externals [] []) remember_form ''remember'' ''on''
     = (remember_form, Some ValueError)
   \<and> check_checkboxes (table_externals [] []) (meta_fields remember_meta) remember_form
     = (remember_form\<lparr>html_controls :=
          [(''user'', TextInput None), (''pass'', TextInput None),
           (''remember'', SelectElement [''yes'', ''no''] (Some ''no'')),
           (''keep'', CheckboxInput True ''on'')]\<rparr>, None)
   \<and> (\<exists>form' ps.
        login_params (table_externals [] []) (Some ''https://x.com/login'') ''alice'' ''s3cret''
          remember_form remember_meta = (form', Inr (Some ps))
        \<and> params_body ps = ''user=alice&pass=s3cret&remember=no&keep=on'')
   \<and> login_params (table_externals [] []) (Some ''https://x.com/login'') ''alice'' ''s3cret''
        select_user_form select_user_meta = (select_user_form, Inl ValueError)
   \<and> login_params (table_externals [] []) (Some ''https://x.com/login'') ''alice'' ''s3cret''
        group_form group_meta = (group_form, Inl KeyError)"
proof -
  have s: "fields_setitem (table_externals [] []) remember_form ''remember'' ''on''
     = (remember_form, Some ValueError)"
    by (simp add: example_defs)
  have c: "check_checkboxes (table_externals [] []) (meta_fields remember_meta) remember_form
     = (remember_form\<lparr>html_controls :=
          [(''user'', TextInput None), (''pass'', TextInput None),
           (''remember'', SelectElement [''yes'', ''no''] (Some ''no'')),
           (''keep'', CheckboxInput True ''on'')]\<rparr>, None)"
    by (simp add: example_defs constant_defs)
  have f: "find_fields (meta_fields select_user_meta) None None = (Some ''user'', Some ''pass'')"
    by (simp add: example_defs constant_defs)
  have c2: "check_checkboxes (table_externals [] []) (meta_fields select_user_meta)
      select_user_form = (select_user_form, None)"
    by (simp add: example_defs constant_defs)
  have u: "fields_setitem (table_externals [] []) select_user_form ''user'' ''alice''
      = (select_user_form, Some ValueError)"
    by (simp add: example_defs)
  have hyp1: "find_fields (meta_fields select_user_meta) None None
        = (Some ''user'', Some ''pass'')
      \<and> check_checkboxes (table_externals [] []) (meta_fields select_user_meta)
          select_user_form = (select_user_form, None)
      \<and> fields_setitem (table_externals [] []) select_user_form ''user'' ''alice''
          = (select_user_form, Some ValueError)"
    using f c2 u by simp
  have a: "login_params (table_externals [] []) (Some ''https://x.com/login'') ''alice''
        ''s3cret'' select_user_form select_user_meta = (select_user_form, Inl ValueError)"
    by (rule only_ValueError_is_ignored
          [THEN conjunct2, THEN conjunct2, THEN conjunct2, THEN conjunct2, THEN conjunct2,
           THEN conjunct1, THEN mp, OF hyp1])
  have f3: "find_fields (meta_fields group_meta) None None = (Some ''user'', Some ''pass'')"
    by (simp add: example_defs constant_defs)
  have c3: "check_checkboxes (table_externals [] []) (meta_fields group_meta) group_form
      = (group_form, Some KeyError)"
    by (simp add: example_defs constant_defs)
  have hyp2: "find_fields (meta_fields group_meta) None None = (Some ''user'', Some ''pass'')
      \<and> check_checkboxes (table_externals [] []) (meta_fields group_meta) group_form
          = (group_form, Some KeyError)"
    using f3 c3 by simp
  have b: "login_params (table_externals [] []) (Some ''https://x.com/login'') ''alice''
        ''s3cret'' group_form group_meta = (group_form, Inl KeyError)"
    by (rule only_ValueError_is_ignored
          [THEN conjunct2, THEN conjunct2, THEN conjunct2, THEN conjunct2,
           THEN conjunct1, THEN mp, OF hyp2])
  show ?thesis
    using s c login_params_remember a b by simp
qed

text \<open>
  The claim as it is written has every failure of the checkbox to take the value
  passed over. On the login form with two checkboxes of one name the assignment of
  \<^verbatim>\<open>'on'\<close> raises \<open>KeyError\<close>, which the loop does not pass over: the call ends with
  that exception and builds no submission.
\<close>

theorem checkbox_group_counterexample:
  "fields_setitem (table_externals [] []) group_form ''keep'' ''on''
     = (group_form, Some KeyError)
   \<and> login_params (table_externals [] []) (Some ''https://x.com/login'') ''alice'' ''s3cret''
        group_form group_meta = (group_form, Inl KeyError)
   \<and> snd (login_params (table_externals [] []) (Some ''https://x.com/login'') ''alice''
        ''s3cret'' group_form group_meta) \<noteq> Inr (Some
          \<lparr>params_url = Some ''https://x.com/session'', params_method = ''POST'',
           params_headers = [(''Content-Type'', ''application/x-www-form-urlencoded'')],
           params_body = ''user=alice&pass=s3cret''\<rparr>)"
  by (simp add: login_params_def example_defs constant_defs)

section \<open>The priority of a link\<close>

lemma contains_sublist: "contains p t = sublist p t"
  by (induction t) (auto simp: sublist_Cons_right)

lemma contains_iff: "contains p t \<longleftrightarrow> (\<exists>a b. t = a @ p @ b)"
  by (simp add: contains_sublist sublist_def)

lemma lower_append: "lower (a @ b) = lower a @ lower b"
  by (simp add: lower_def)

lemma list_ex_patterns:
  "p \<in> set priority_patterns \<Longrightarrow> contains p t \<Longrightarrow>
   list_ex (\<lambda>pattern. contains pattern t) priority_patterns"
  by (auto simp: list_ex_iff)

lemma lower_sign_up: "lower ''Sign Up Now'' = ''sign up now''"
  by (simp add: lower_def lower_char_def)

lemma sign_up_text_priority:
  assumes "link_text l = ''Sign Up Now''"
  shows "link_priority l = 100"
proof -
  have "lower (relative_url (link_parts l) @ '' '' @ link_text l)
      = (lower (relative_url (link_parts l)) @ '' '') @ ''sign up'' @ '' now''"
    using assms by (simp add: lower_append lower_sign_up) (simp add: lower_def lower_char_def)
  then have "contains ''sign up'' (lower (relative_url (link_parts l) @ '' '' @ link_text l))"
    unfolding contains_iff by blast
  moreover have "''sign up'' \<in> set priority_patterns"
    by (simp add: priority_patterns_def)
  ultimately show ?thesis
    unfolding link_priority_def Let_def using list_ex_patterns by simp
qed

lemma about_text_priority:
  assumes "link_text l = ''About Us''" and "relative_url (link_parts l) = ''/about''"
  shows "link_priority l = 0"
  using assms by (simp add: link_priority_def priority_patterns_def lower_def lower_char_def)

text \<open>
  Claim C7, as the code has it. The text searched for the patterns is the link's
  relative URL, that is its path together with its query and its fragment, then a
  space, then the link's text, all in lower case. The request for the link gets priority
  100 if one of the thirteen patterns occurs in that text and 0 otherwise. For a link
  without query and fragment this is the priority computed from path and text alone. A
  link with the text \<^verbatim>\<open>Sign Up Now\<close> gets 100 whatever its URL is; a link with the
  text \<^verbatim>\<open>About Us\<close> and the relative URL \<^verbatim>\<open>/about\<close> gets 0.
\<close>

theorem link_priority_from_relative_url:
  "link_priority l =
     (if list_ex
           (\<lambda>pattern. contains pattern
              (lower (path (link_parts l)
                      @ (if query (link_parts l) \<noteq> [] then ''?'' @ query (link_parts l) else [])
                      @ (if fragment (link_parts l) \<noteq> []
                         then ''#'' @ fragment (link_parts l) else [])
                      @ '' '' @ link_text l)))
           [''login'', ''log in'', ''logon'', ''signin'', ''sign in'', ''sign-in'',
            ''signup'', ''sign up'', ''sign-up'', ''register'', ''registration'',
            ''account'', ''join'']
      then 100 else 0)
   \<and> request_priority (link_request l) = link_priority l
   \<and> (query (link_parts l) = [] \<and> fragment (link_parts l) = []
        \<longrightarrow> link_priority l = path_text_priority l)
   \<and> (link_text l = ''Sign Up Now'' \<longrightarrow> link_priority l = 100)
   \<and> (link_text l = ''About Us'' \<and> relative_url (link_parts l) = ''/about''
        \<longrightarrow> link_priority l = 0)"
proof (intro conjI impI)
  show "link_priority l =
     (if list_ex
           (\<lambda>pattern. contains pattern
              (lower (path (link_parts l)
                      @ (if query (link_parts l) \<noteq> [] then ''?'' @ query (link_parts l) else [])
                      @ (if fragment (link_parts l) \<noteq> []
                         then ''#'' @ fragment (link_parts l) else [])
                      @ '' '' @ link_text l)))
           [''login'', ''log in'', ''logon'', ''signin'', ''sign in'', ''sign-in'',
            ''signup'', ''sign up'', ''sign-up'', ''register'', ''registration'',
            ''account'', ''join'']
      then 100 else 0)"
    unfolding link_priority_def relative_url_def priority_patterns_def Let_def
    by (simp only: append_assoc)
next
  show "request_priority (link_request l) = link_priority l"
    by (simp add: link_request_def)
next
  assume "query (link_parts l) = [] \<and> fragment (link_parts l) = []"
  then show "link_priority l = path_text_priority l"
    by (simp add: link_priority_def path_text_priority_def relative_url_def)
next
  assume "link_text l = ''Sign Up Now''"
  then show "link_priority l = 100"
    by (rule sign_up_text_priority)
next
  assume "link_text l = ''About Us'' \<and> relative_url (link_parts l) = ''/about''"
  then show "link_priority l = 0"
    by (simp add: about_text_priority)
qed

theorem link_priority_from_relative_url_witness:
  "link_priority sign_up_link = 100 \<and> link_priority about_link = 0
   \<and> path_text_priority about_link = 0
   \<and> request_priority (link_request about_next_link) = 100"
proof -
  have a: "link_text about_link = ''About Us'' \<and> relative_url (link_parts about_link) = ''/about''"
    by (simp add: about_link_def relative_url_def)
  have q: "query (link_parts about_link) = [] \<and> fragment (link_parts about_link) = []"
    by (simp add: about_link_def)
  have s: "link_text sign_up_link = ''Sign Up Now''"
    by (simp add: sign_up_link_def)
  have n: "link_priority about_next_link = 100"
    by (simp add: link_priority_def about_next_link_def relative_url_def priority_patterns_def
        lower_def lower_char_def)
  show ?thesis
    using link_priority_from_relative_url [of sign_up_link]
      link_priority_from_relative_url [of about_link]
      link_priority_from_relative_url [of about_next_link] a q s n
    by simp
qed

text \<open>
  The claim as it is written looks at the path component only. The link to
  \<^verbatim>\<open>http://example.com/about?next=login\<close> with the text \<^verbatim>\<open>About Us\<close> has no
  pattern in its text or its path, so that reading gives priority 0, but the code finds
  \<^verbatim>\<open>login\<close> in the query and gives the request priority 100.
\<close>

theorem path_only_priority_counterexample:
  "path_text_priority about_next_link = 0
   \<and> link_priority about_next_link = 100
   \<and> request_priority (link_request about_next_link) \<noteq> path_text_priority about_next_link"
  by (simp add: link_request_def link_priority_def path_text_priority_def about_next_link_def
      relative_url_def priority_patterns_def lower_def lower_char_def)

section \<open>The flags of the form spider\<close>

lemma scan_forms_found_login:
  "found_login (scan_forms self u ts) = (found_login self \<or> ''login'' \<in> set ts)"
  by (induction self u ts rule: scan_forms.induct)
     (auto simp: handle_login_form_def handle_registration_form_def)

lemma scan_forms_found_registration:
  "found_registration (scan_forms self u ts)
     = (found_registration self \<or> ''registration'' \<in> set ts)"
  by (induction self u ts rule: scan_forms.induct)
     (auto simp: handle_login_form_def handle_registration_form_def)

lemma scan_forms_login_calls:
  "login_calls (scan_forms self u ts)
     = login_calls self + (if \<not> found_login self \<and> ''login'' \<in> set ts then 1 else 0)"
  by (induction self u ts rule: scan_forms.induct)
     (auto simp: handle_login_form_def handle_registration_form_def login_calls_def)

lemma scan_forms_registration_calls:
  "registration_calls (scan_forms self u ts)
     = registration_calls self
       + (if \<not> found_registration self \<and> ''registration'' \<in> set ts then 1 else 0)"
  by (induction self u ts rule: scan_forms.induct)
     (auto simp: handle_login_form_def handle_registration_form_def registration_calls_def)

lemma scan_forms_login_url:
  "credentials_login_url (scan_forms self u ts)
     = (if \<not> found_login self \<and> ''login'' \<in> set ts then Some u
        else credentials_login_url self)"
  by (induction self u ts rule: scan_forms.induct)
     (auto simp: handle_login_form_def handle_registration_form_def)

lemma scan_forms_registration_url:
  "credentials_registration_url (scan_forms self u ts)
     = (if \<not> found_registration self \<and> ''registration'' \<in> set ts then Some u
        else credentials_registration_url self)"
  by (induction self u ts rule: scan_forms.induct)
     (auto simp: handle_login_form_def handle_registration_form_def)

lemma parse_state:
  "fst (form_spider_parse ext self r)
     = (if response_text r \<noteq> [] then scan_forms self (response_url r) (form_types ext r)
        else self)"
  by (simp add: form_spider_parse_def form_types_def Let_def)

lemma parse_found_login:
  "found_login (fst (form_spider_parse ext self r))
     = (found_login self \<or> has_form ext ''login'' r)"
  by (simp add: parse_state scan_forms_found_login has_form_def)

lemma parse_found_registration:
  "found_registration (fst (form_spider_parse ext self r))
     = (found_registration self \<or> has_form ext ''registration'' r)"
  by (simp add: parse_state scan_forms_found_registration has_form_def)

lemma parse_login_calls:
  "login_calls (fst (form_spider_parse ext self r))
     = login_calls self + (if \<not> found_login self \<and> has_form ext ''login'' r then 1 else 0)"
  by (simp add: parse_state scan_forms_login_calls has_form_def)

lemma parse_registration_calls:
  "registration_calls (fst (form_spider_parse ext self r))
     = registration_calls self
       + (if \<not> found_registration self \<and> has_form ext ''registration'' r then 1 else 0)"
  by (simp add: parse_state scan_forms_registration_calls has_form_def)

lemma parse_login_url:
  "credentials_login_url (fst (form_spider_parse ext self r))
     = (if \<not> found_login self \<and> has_form ext ''login'' r then Some (response_url r)
        else credentials_login_url self)"
  by (simp add: parse_state scan_forms_login_url has_form_def)

lemma parse_registration_url:
  "credentials_registration_url (fst (form_spider_parse ext self r))
     = (if \<not> found_registration self \<and> has_form ext ''registration'' r
        then Some (response_url r) else credentials_registration_url self)"
  by (simp add: parse_state scan_forms_registration_url has_form_def)

lemma parse_outcome:
  "snd (form_spider_parse ext self r)
     = (if found_registration (fst (form_spider_parse ext self r))
           \<and> found_login (fst (form_spider_parse ext self r))
        then Inl CloseSpider else Inr (map link_request (extract_links ext r)))"
  by (simp add: form_spider_parse_def Let_def)

lemma crawl_append: "crawl ext self (rs @ rs') = crawl ext (crawl ext self rs) rs'"
  by (induction rs arbitrary: self) simp_all

lemma crawl_found_login:
  "found_login (crawl ext self rs) = (found_login self \<or> list_ex (has_form ext ''login'') rs)"
  by (induction rs arbitrary: self) (auto simp: parse_found_login)

lemma crawl_found_registration:
  "found_registration (crawl ext self rs)
     = (found_registration self \<or> list_ex (has_form ext ''registration'') rs)"
  by (induction rs arbitrary: self) (auto simp: parse_found_registration)

lemma crawl_login_calls:
  "login_calls (crawl ext self rs)
     = login_calls self
       + (if \<not> found_login self \<and> list_ex (has_form ext ''login'') rs then 1 else 0)"
  by (induction rs arbitrary: self) (auto simp: parse_login_calls parse_found_login)

lemma crawl_registration_calls:
  "registration_calls (crawl ext self rs)
     = registration_calls self
       + (if \<not> found_registration self \<and> list_ex (has_form ext ''registration'') rs
          then 1 else 0)"
  by (induction rs arbitrary: self)
     (auto simp: parse_registration_calls parse_found_registration)

lemma crawl_login_url:
  "credentials_login_url (crawl ext self rs)
     = (if found_login self then credentials_login_url self
        else case find (has_form ext ''login'') rs of
               None \<Rightarrow> credentials_login_url self
             | Some r \<Rightarrow> Some (response_url r))"
proof (induction rs arbitrary: self)
  case Nil
  then show ?case by simp
next
  case (Cons r rs)
  show ?case
    by (auto simp: Cons.IH parse_found_login parse_login_url split: option.splits)
qed

lemma crawl_registration_url:
  "credentials_registration_url (crawl ext self rs)
     = (if found_registration self then credentials_registration_url self
        else case find (has_form ext ''registration'') rs of
               None \<Rightarrow> credentials_registration_url self
             | Some r \<Rightarrow> Some (response_url r))"
proof (induction rs arbitrary: self)
  case Nil
  then show ?case by simp
next
  case (Cons r rs)
  show ?case
    by (auto simp: Cons.IH parse_found_registration parse_registration_url
        split: option.splits)
qed

text \<open>
  Claim C8. A form spider starts with both flags false. After any sequence of
  responses, a flag is true exactly if one of the responses had a form of its type, and
  its handler has then been called exactly once, with the URL of the first such
  response; later forms of the type change nothing, and a flag that is true stays true
  whatever responses follow. A call of \<^verbatim>\<open>parse\<close> raises \<open>CloseSpider\<close> and yields no
  request exactly when both flags are true after the page's forms have been looked at;
  otherwise it yields one request per link of the page.
\<close>

theorem found_flags_flip_once:
  "\<not> found_login form_spider_init \<and> \<not> found_registration form_spider_init
   \<and> found_login (crawl ext form_spider_init rs) = list_ex (has_form ext ''login'') rs
   \<and> found_registration (crawl ext form_spider_init rs)
       = list_ex (has_form ext ''registration'') rs
   \<and> login_calls (crawl ext form_spider_init rs)
       = (if found_login (crawl ext form_spider_init rs) then 1 else 0)
   \<and> registration_calls (crawl ext form_spider_init rs)
       = (if found_registration (crawl ext form_spider_init rs) then 1 else 0)
   \<and> credentials_login_url (crawl ext form_spider_init rs)
       = map_option response_url (find (has_form ext ''login'') rs)
   \<and> credentials_registration_url (crawl ext form_spider_init rs)
       = map_option response_url (find (has_form ext ''registration'') rs)
   \<and> (found_login self \<longrightarrow> found_login (crawl ext self rs)
        \<and> login_calls (crawl ext self rs) = login_calls self
        \<and> credentials_login_url (crawl ext self rs) = credentials_login_url self)
   \<and> (found_registration self \<longrightarrow> found_registration (crawl ext self rs)
        \<and> registration_calls (crawl ext self rs) = registration_calls self
        \<and> credentials_registration_url (crawl ext self rs) = credentials_registration_url self)
   \<and> (snd (form_spider_parse ext self r) = Inl CloseSpider
        \<longleftrightarrow> found_login (fst (form_spider_parse ext self r))
            \<and> found_registration (fst (form_spider_parse ext self r)))
   \<and> (\<not> (found_login (fst (form_spider_parse ext self r))
            \<and> found_registration (fst (form_spider_parse ext self r)))
        \<longrightarrow> snd (form_spider_parse ext self r) = Inr (map link_request (extract_links ext r)))
   \<and> (found_login self \<and> found_registration self
        \<longrightarrow> form_spider_parse ext self r = (self, Inl CloseSpider))"
proof -
  have init: "\<not> found_login form_spider_init" "\<not> found_registration form_spider_init"
    "login_calls form_spider_init = 0" "registration_calls form_spider_init = 0"
    "credentials_login_url form_spider_init = None"
    "credentials_registration_url form_spider_init = None"
    by (simp_all add: form_spider_init_def login_calls_def registration_calls_def)
  have fl: "found_login (crawl ext form_spider_init rs) = list_ex (has_form ext ''login'') rs"
    by (simp add: crawl_found_login init)
  have fr: "found_registration (crawl ext form_spider_init rs)
       = list_ex (has_form ext ''registration'') rs"
    by (simp add: crawl_found_registration init)
  have cl: "login_calls (crawl ext form_spider_init rs)
       = (if found_login (crawl ext form_spider_init rs) then 1 else 0)"
    by (simp add: crawl_login_calls crawl_found_login init)
  have cr: "registration_calls (crawl ext form_spider_init rs)
       = (if found_registration (crawl ext form_spider_init rs) then 1 else 0)"
    by (simp add: crawl_registration_calls crawl_found_registration init)
  have ul: "credentials_login_url (crawl ext form_spider_init rs)
       = map_option response_url (find (has_form ext ''login'') rs)"
    by (simp add: crawl_login_url init split: option.splits)
  have ur: "credentials_registration_url (crawl ext form_spider_init rs)
       = map_option response_url (find (has_form ext ''registration'') rs)"
    by (simp add: crawl_registration_url init split: option.splits)
  have kl: "found_login self \<longrightarrow> found_login (crawl ext self rs)
        \<and> login_calls (crawl ext self rs) = login_calls self
        \<and> credentials_login_url (crawl ext self rs) = credentials_login_url self"
    by (simp add: crawl_found_login crawl_login_calls crawl_login_url)
  have kr: "found_registration self \<longrightarrow> found_registration (crawl ext self rs)
        \<and> registration_calls (crawl ext self rs) = registration_calls self
        \<and> credentials_registration_url (crawl ext self rs) = credentials_registration_url self"
    by (simp add: crawl_found_registration crawl_registration_calls crawl_registration_url)
  have cs: "snd (form_spider_parse ext self r) = Inl CloseSpider
        \<longleftrightarrow> found_login (fst (form_spider_parse ext self r))
            \<and> found_registration (fst (form_spider_parse ext self r))"
    by (auto simp: parse_outcome)
  have rq: "\<not> (found_login (fst (form_spider_parse ext self r))
            \<and> found_registration (fst (form_spider_parse ext self r)))
        \<longrightarrow> snd (form_spider_parse ext self r) = Inr (map link_request (extract_links ext r))"
    by (auto simp: parse_outcome)
  have closed: "found_login self \<and> found_registration self
        \<longrightarrow> form_spider_parse ext self r = (self, Inl CloseSpider)"
  proof
    assume both: "found_login self \<and> found_registration self"
    have "scan_forms self (response_url r) ts = self" for ts
      using both by (induction ts) simp_all
    then have "fst (form_spider_parse ext self r) = self"
      by (simp add: parse_state)
    moreover from this have "snd (form_spider_parse ext self r) = Inl CloseSpider"
      using both by (simp add: parse_outcome)
    ultimately show "form_spider_parse ext self r = (self, Inl CloseSpider)"
      by (simp add: prod_eq_iff)
  qed
  from init(1,2) fl fr cl cr ul ur kl kr cs rq closed show ?thesis
    by (intro conjI)
qed

lemma blank_has_forms:
  "has_form site_both ''login'' blank_response"
  "has_form site_both ''registration'' blank_response"
  "has_form site_login_only ''login'' blank_response"
  "\<not> has_form site_login_only ''registration'' blank_response"
  by (simp_all add: has_form_def form_types_def site_both_def site_login_only_def
      table_externals_def blank_response_def login_meta_A_def)

theorem found_flags_flip_once_witness:
  "found_login (crawl site_both form_spider_init [blank_response, blank_response])
   \<and> found_registration (crawl site_both form_spider_init [blank_response, blank_response])
   \<and> login_calls (crawl site_both form_spider_init [blank_response, blank_response]) = 1
   \<and> credentials_login_url (crawl site_both form_spider_init [blank_response, blank_response])
       = Some ''https://x.com/login''
   \<and> snd (form_spider_parse site_both form_spider_init blank_response) = Inl CloseSpider
   \<and> (\<exists>rq1 rq2. snd (form_spider_parse site_login_only form_spider_init blank_response)
         = Inr [rq1, rq2] \<and> request_priority rq1 = 100 \<and> request_priority rq2 = 0)"
proof -
  have l: "extract_links site_login_only blank_response = [sign_up_link, about_link]"
    by (simp add: site_login_only_def table_externals_def blank_response_def)
  have p: "request_priority (link_request sign_up_link) = 100"
    "request_priority (link_request about_link) = 0"
    by (simp_all add: link_request_def link_priority_def sign_up_link_def about_link_def
        relative_url_def priority_patterns_def lower_def lower_char_def)
  have u: "response_url blank_response = ''https://x.com/login''"
    by (simp add: blank_response_def)
  have f: "found_login (fst (form_spider_parse site_both form_spider_init blank_response))"
    "found_registration (fst (form_spider_parse site_both form_spider_init blank_response))"
    "\<not> found_registration
        (fst (form_spider_parse site_login_only form_spider_init blank_response))"
    by (simp_all add: parse_found_login parse_found_registration blank_has_forms
        form_spider_init_def)
  show ?thesis
    using found_flags_flip_once [of site_both "[blank_response, blank_response]"
        form_spider_init blank_response]
      found_flags_flip_once [of site_login_only "[blank_response]"
        form_spider_init blank_response]
      f l p u
    by (simp add: blank_has_forms)
qed

section \<open>What \<^verbatim>\<open>login_params\<close> does to the form\<close>

text \<open>
  Claim C3, as the code has it. The classification \<^verbatim>\<open>meta\<close> is only read, and the
  outcome of a call is determined by the URL, the credentials, the form and the
  classification. The form object, however, is written to. A call that returns
  \<^verbatim>\<open>None\<close> leaves the form as it was. A call that returns a submission leaves the
  form as the assignments made it: \<^verbatim>\<open>'on'\<close> assigned to the remember-me checkboxes in
  field order, then the user name and the password assigned to their fields. The
  submission is computed from that form, so a second call on the form the first call
  left returns the same submission and leaves the form unchanged, provided that
  assigning the same values again changes nothing.
\<close>

theorem login_params_writes_the_form:
  "(snd (login_params ext url username password form meta) = Inr None
      \<longrightarrow> fst (login_params ext url username password form meta) = form)
   \<and> (login_params ext url username password form meta = (form', Inr (Some ps))
      \<longrightarrow> (\<exists>uf pf. find_fields (meta_fields meta) None None = (Some uf, Some pf)
             \<and> form' =
                 fst (fields_setitem ext
                   (fst (fields_setitem ext
                      (foldl (\<lambda>f n. fst (fields_setitem ext f n ''on'')) form
                         (map fst (filter (\<lambda>(n, t). t = ''remember me checkbox'')
                                     (meta_fields meta))))
                      uf username))
                   pf password)))
   \<and> (login_params ext url username password form meta = (form', Inr (Some ps))
        \<and> check_checkboxes ext (meta_fields meta) form' = (form', None)
        \<and> fields_setitem ext form'
             (case fst (find_fields (meta_fields meta) None None) of
                None \<Rightarrow> [] | Some uf \<Rightarrow> uf) username = (form', None)
        \<and> fields_setitem ext form'
             (case snd (find_fields (meta_fields meta) None None) of
                None \<Rightarrow> [] | Some pf \<Rightarrow> pf) password = (form', None)
      \<longrightarrow> login_params ext url username password form' meta = (form', Inr (Some ps)))"
proof (intro conjI impI)
  assume "snd (login_params ext url username password form meta) = Inr None"
  then show "fst (login_params ext url username password form meta) = form"
    by (auto simp: login_params_def Let_def split: option.splits prod.splits sum.splits)
next
  assume a: "login_params ext url username password form meta = (form', Inr (Some ps))"
  from login_params_Some [OF a] obtain uf pf form1 form2 where
    ff: "find_fields (meta_fields meta) None None = (Some uf, Some pf)"
    and c: "check_checkboxes ext (meta_fields meta) form = (form1, None)"
    and u: "fields_setitem ext form1 uf username = (form2, None)"
    and p: "fields_setitem ext form2 pf password = (form', None)"
    by blast
  from c have "form1 = foldl (\<lambda>f n. fst (fields_setitem ext f n ''on'')) form
                 (map fst (filter (\<lambda>(n, t). t = ''remember me checkbox'') (meta_fields meta)))"
    using check_checkboxes_foldl [of ext "meta_fields meta" form]
    by (simp add: CHECK_CHECKBOXES_def)
  then show "\<exists>uf pf. find_fields (meta_fields meta) None None = (Some uf, Some pf)
             \<and> form' =
                 fst (fields_setitem ext
                   (fst (fields_setitem ext
                      (foldl (\<lambda>f n. fst (fields_setitem ext f n ''on'')) form
                         (map fst (filter (\<lambda>(n, t). t = ''remember me checkbox'')
                                     (meta_fields meta))))
                      uf username))
                   pf password)"
    using ff u p by simp
next
  assume a: "login_params ext url username password form meta = (form', Inr (Some ps))
        \<and> check_checkboxes ext (meta_fields meta) form' = (form', None)
        \<and> fields_setitem ext form'
             (case fst (find_fields (meta_fields meta) None None) of
                None \<Rightarrow> [] | Some uf \<Rightarrow> uf) username = (form', None)
        \<and> fields_setitem ext form'
             (case snd (find_fields (meta_fields meta) None None) of
                None \<Rightarrow> [] | Some pf \<Rightarrow> pf) password = (form', None)"
  then have first: "login_params ext url username password form meta = (form', Inr (Some ps))"
    by simp
  from login_params_Some [OF first] obtain uf pf submit_values where
    ff: "find_fields (meta_fields meta) None None = (Some uf, Some pf)"
    and s: "append_submit_values ext form' (meta_fields meta) (form_values ext form')
              = Inr submit_values"
    and ps: "ps = \<lparr>params_url =
                   (case url of None \<Rightarrow> form_action ext form'
                    | Some u \<Rightarrow> Some (urljoin ext u (form_action ext form'))),
                 params_method = form_method ext form',
                 params_headers =
                   (if form_method ext form' = ''POST'' then DEFAULT_POST_HEADERS else []),
                 params_body = urlencode ext submit_values\<rparr>"
    by blast
  from a ff have again:
    "check_checkboxes ext (meta_fields meta) form' = (form', None)"
    "fields_setitem ext form' uf username = (form', None)"
    "fields_setitem ext form' pf password = (form', None)"
    by simp_all
  show "login_params ext url username password form' meta = (form', Inr (Some ps))"
    by (simp add: login_params_def ff again s ps)
qed

theorem login_params_writes_the_form_witness:
  "(\<exists>form' ps.
      login_params site_A (Some ''https://x.com/login'') ''alice'' ''s3cret''
        login_form_A login_meta_A = (form', Inr (Some ps))
      \<and> form' \<noteq> login_form_A
      \<and> login_params site_A (Some ''https://x.com/login'') ''alice'' ''s3cret''
          form' login_meta_A = (form', Inr (Some ps)))
   \<and> login_params site_B (Some ''https://x.com/login'') ''alice'' ''s3cret''
        no_password_form no_password_meta = (no_password_form, Inr None)"
proof -
  let ?form' = "login_form_A\<lparr>html_controls :=
         [(''user'', TextInput (Some ''alice'')), (''pass'', TextInput (Some ''s3cret'')),
          (''go'', SubmitInput (Some ''Go''))]\<rparr>"
  let ?ps = "\<lparr>params_url = Some ''https://x.com/session'', params_method = ''POST'',
        params_headers = [(''Content-Type'', ''application/x-www-form-urlencoded'')],
        params_body = ''user=alice&pass=s3cret&go=Go''\<rparr>"
  have c: "check_checkboxes site_A (meta_fields login_meta_A) ?form' = (?form', None)"
    by (simp add: site_A_def example_defs constant_defs)
  have f: "find_fields (meta_fields login_meta_A) None None = (Some ''user'', Some ''pass'')"
    by (simp add: example_defs constant_defs)
  have u: "fields_setitem site_A ?form' ''user'' ''alice'' = (?form', None)"
    by (simp add: site_A_def example_defs)
  have p: "fields_setitem site_A ?form' ''pass'' ''s3cret'' = (?form', None)"
    by (simp add: site_A_def example_defs)
  have n: "snd (login_params site_B (Some ''https://x.com/login'') ''alice'' ''s3cret''
        no_password_form no_password_meta) = Inr None"
    by (simp add: login_params_def site_B_def example_defs constant_defs)
  have d: "?form' \<noteq> login_form_A"
    by (simp add: login_form_A_def)
  have hyp: "login_params site_A (Some ''https://x.com/login'') ''alice'' ''s3cret''
        login_form_A login_meta_A = (?form', Inr (Some ?ps))
      \<and> check_checkboxes site_A (meta_fields login_meta_A) ?form' = (?form', None)
      \<and> fields_setitem site_A ?form'
           (case fst (find_fields (meta_fields login_meta_A) None None) of
              None \<Rightarrow> [] | Some uf \<Rightarrow> uf) ''alice'' = (?form', None)
      \<and> fields_setitem site_A ?form'
           (case snd (find_fields (meta_fields login_meta_A) None None) of
              None \<Rightarrow> [] | Some pf \<Rightarrow> pf) ''s3cret'' = (?form', None)"
    using login_params_site_A c u p by (simp add: f)
  have again: "login_params site_A (Some ''https://x.com/login'') ''alice'' ''s3cret''
      ?form' login_meta_A = (?form', Inr (Some ?ps))"
    by (rule login_params_writes_the_form
          [where ext = site_A and form = login_form_A and meta = login_meta_A,
           THEN conjunct2, THEN conjunct2, THEN mp, OF hyp])
  have none: "login_params site_B (Some ''https://x.com/login'') ''alice'' ''s3cret''
        no_password_form no_password_meta = (no_password_form, Inr None)"
    using login_params_writes_the_form
      [where ext = site_B and form = no_password_form and meta = no_password_meta,
       THEN conjunct1, THEN mp, OF n] n
    by (simp add: prod_eq_iff)
  show ?thesis
    using login_params_site_A again d none by simp
qed

text \<open>
  The claim as it is written says that the function has no side effect on its input.
  On the page with the login form it has one: after the call the form object holds the
  credentials, where before its two fields were empty.
\<close>

theorem side_effect_free_counterexample:
  "fst (login_params site_A (Some ''https://x.com/login'') ''alice'' ''s3cret''
          login_form_A login_meta_A) \<noteq> login_form_A
   \<and> fields_getitem site_A login_form_A ''pass'' = Inr (Single None)
   \<and> fields_getitem site_A
        (fst (login_params site_A (Some ''https://x.com/login'') ''alice'' ''s3cret''
                login_form_A login_meta_A)) ''pass'' = Inr (Single (Some ''s3cret''))"
  by (simp add: login_params_site_A) (simp add: site_A_def example_defs)

end
